theory Spec2Isabelle
  imports Complex_Main "HOL-Library.FSet"
begin

text \<open>
  An embedding of the real-time part of the MyDosen backend: the geofence classification
  (\<open>utils/geofence.js\<close>), the socket manager (\<open>sockets/socketManager.js\<close>, in the version
  that registers the socket ids of an identity in a set, and for presence also the earlier
  version that counts sockets), the approval handler of \<open>controllers/trackingController.js\<close>
  and the seed data of \<open>config/db.js\<close>. Functions keep the names they have in the source.
\<close>

section \<open>JavaScript values\<close>

text \<open>
  Event payloads are JSON objects whose fields are scalars. A field that is absent reads as
  \<open>JUndefined\<close>. JSON cannot carry NaN or infinities, so a number is a real.
\<close>

datatype jsval = JUndefined | JNull | JBool bool | JNum real | JStr string

text \<open>A payload object: property access on a missing key gives \<open>undefined\<close>.\<close>

type_synonym jsobject = "string \<Rightarrow> jsval"

text \<open>The operator \<open>a ?? b\<close>: \<open>b\<close> when \<open>a\<close> is \<open>null\<close> or \<open>undefined\<close>.\<close>

fun nullish :: "jsval \<Rightarrow> jsval \<Rightarrow> jsval" where
  "nullish JUndefined b = b"
| "nullish JNull b = b"
| "nullish a b = a"


text \<open>
  String coercion (\<open>String(v)\<close> and template literals). The decimal rendering of a number
  is a built-in of the language working on the floating-point representation; it is the
  parameter \<open>nts\<close> of the model.
\<close>

fun jsString :: "(real \<Rightarrow> string) \<Rightarrow> jsval \<Rightarrow> string" where
  "jsString nts JUndefined = ''undefined''"
| "jsString nts JNull = ''null''"
| "jsString nts (JBool b) = (if b then ''true'' else ''false'')"
| "jsString nts (JNum r) = nts r"
| "jsString nts (JStr s) = s"

section \<open>Geofence classification (utils/geofence.js)\<close>

record geofence =
  gname :: string
  glatitude :: real
  glongitude :: real
  radius_km :: "real option"

record geofence_result =
  isInside :: bool
  locationName :: string
  displayLat :: real
  displayLong :: real

record masked_location =
  latitude :: real
  longitude :: real
  mlocationName :: string

definition MASKED_LOCATION :: masked_location where
  "MASKED_LOCATION =
     \<lparr> latitude = - 6.2088, longitude = 106.8456, mlocationName = ''Di Luar'' \<rparr>"

text \<open>
  Coordinates and distances are real numbers here; the source computes them in double
  precision. The two agree up to rounding, except where rounding leaves the domain of the
  square root: for a sample and a centre that are nearly opposite points of the globe the
  rounded \<open>a\<close> can exceed 1, and then \<open>Math.sqrt(1 - a)\<close>, the distance and the comparison
  with the radius are \<open>NaN\<close>, \<open>NaN\<close> and false, where the real distance is about 20015 km.
\<close>

definition toRad :: "real \<Rightarrow> real" where
  "toRad deg = deg * (pi / 180)"

text \<open>\<open>Math.atan2(y, x)\<close> on the reals.\<close>

definition atan2 :: "real \<Rightarrow> real \<Rightarrow> real" where
  "atan2 y x =
     (if 0 < x then arctan (y / x)
      else if x < 0 then (if 0 \<le> y then arctan (y / x) + pi else arctan (y / x) - pi)
      else if 0 < y then pi / 2
      else if y < 0 then - (pi / 2)
      else 0)"

definition haversineDistance :: "real \<Rightarrow> real \<Rightarrow> real \<Rightarrow> real \<Rightarrow> real" where
  "haversineDistance lat1 lon1 lat2 lon2 =
     (let R = 6371;
          dLat = toRad (lat2 - lat1);
          dLon = toRad (lon2 - lon1);
          a = sin (dLat / 2) * sin (dLat / 2) +
              cos (toRad lat1) * cos (toRad lat2) *
              sin (dLon / 2) * sin (dLon / 2);
          c = 2 * atan2 (sqrt a) (sqrt (1 - a))
      in R * c)"

text \<open>
  The comparison \<open>distance <= geofence.radius_km\<close>; the column is nullable, and
  \<open>null\<close> compares as 0.
\<close>

definition radiusNumber :: "real option \<Rightarrow> real" where
  "radiusNumber r = (case r of None \<Rightarrow> 0 | Some x \<Rightarrow> x)"

definition maskedResult :: geofence_result where
  "maskedResult =
     \<lparr> isInside = False,
       locationName = mlocationName MASKED_LOCATION,
       displayLat = latitude MASKED_LOCATION,
       displayLong = longitude MASKED_LOCATION \<rparr>"

text \<open>The \<open>for ... of\<close> loop of \<open>checkGeofence\<close> over the rows read.\<close>

fun checkGeofence_loop :: "geofence list \<Rightarrow> real \<Rightarrow> real \<Rightarrow> geofence_result" where
  "checkGeofence_loop [] lat long = maskedResult"
| "checkGeofence_loop (g # gs) lat long =
     (let distance = haversineDistance lat long (glatitude g) (glongitude g)
      in if distance \<le> radiusNumber (radius_km g)
         then \<lparr> isInside = True, locationName = gname g,
                displayLat = lat, displayLong = long \<rparr>
         else checkGeofence_loop gs lat long)"

section \<open>The server state\<close>

datatype role = Admin | Dosen | Mahasiswa

text \<open>The verified token payload attached to a socket (\<open>socket.user\<close>).\<close>

record user =
  uid :: string
  uname :: string
  urole :: role

text \<open>Rows of the tables the socket manager and the tracking controller touch.\<close>

record location_row =
  loc_latitude :: real
  loc_longitude :: real
  loc_position_name :: string
  loc_last_updated :: int

text \<open>
  \<open>logged_at\<close> is filled in by the database when the row is inserted (the \<open>INSERT\<close>
  does not supply it); it is kept here as the millisecond value that
  \<open>new Date(logged_at + 'Z').getTime()\<close> reads back.
\<close>

record history_row =
  h_id :: string
  h_dosen_id :: string
  h_day_of_week :: nat
  h_location_name :: string
  h_latitude :: real
  h_longitude :: real
  h_logged_date :: string
  h_logged_at :: int

datatype perm_status = Pending | Approved | Rejected

record permission_row =
  p_id :: string
  p_student_id :: string
  p_lecturer_id :: string
  p_status :: perm_status

text \<open>What is emitted, to whom.\<close>

datatype target = ToSocket string | ToRoom string | ToAll

record location_data =
  ld_dosen_id :: string
  ld_name :: string
  ld_latitude :: real
  ld_longitude :: real
  ld_position_name :: string
  ld_is_inside :: bool
  ld_last_updated :: int

datatype message =
    ErrorMsg string
  | DosenStatus jsval string bool
  | DosenMoved location_data
  | DosenMovedStored jsval string location_row
  | RoomJoined jsval string
  | LocationUpdated bool location_data

text \<open>The statements sent to the database, in the order they are issued.\<close>

datatype db_op =
    SelectGeofences
  | SelectLocationExists string
  | UpdateLocation string
  | InsertLocation string
  | SelectLastHistory string nat string
  | InsertHistory string
  | SelectPermission string jsval
  | SelectUserName jsval
  | SelectLocation jsval

text \<open>
  The state of the server: the three in-memory maps of the socket manager, the rooms of the
  transport (room name to member sockets), what has been emitted and what has been written
  to \<open>console.error\<close>, in order, and the tables of the database. A handler is a function
  from state to state: its awaits are taken in one step.
\<close>

record state =
  onlineDosenMap :: "string \<rightharpoonup> string fset"
  onlineUsersMap :: "string \<rightharpoonup> string fset"
  lastSaveTimestamps :: "string \<rightharpoonup> int"
  rooms :: "string \<Rightarrow> string fset"
  outbox :: "(target \<times> message) list"
  console_error :: "string list"
  dbTrace :: "db_op list"
  db_users :: "string \<rightharpoonup> string"
  db_geofences :: "geofence list"
  db_locations :: "string \<rightharpoonup> location_row"
  db_location_history :: "history_row list"
  db_tracking_permissions :: "permission_row list"

text \<open>
  What a handler reads from outside the state: the clock at each of its reads, the calendar
  day and date derived from the clock, the time the database stamps on a row, a fresh UUID,
  and which of the database calls reject.
\<close>

record env =
  clkBroadcast :: int
  clkSave :: int
  clkHistory :: int
  histDayOfWeek :: nat
  histToday :: string
  dbStamp :: int
  newUuid :: string
  failGeofences :: bool
  failLocationSelect :: bool
  failLocationWrite :: bool
  failHistorySelect :: bool
  failHistoryInsert :: bool
  failPermissionSelect :: bool
  failUserSelect :: bool
  failPermissionWrite :: bool

definition LOCATION_SAVE_THROTTLE_MS :: int where
  "LOCATION_SAVE_THROTTLE_MS = 60000"

definition LOCATION_LOG_THROTTLE_MS :: int where
  "LOCATION_LOG_THROTTLE_MS = 3600000"

definition emit :: "target \<Rightarrow> message \<Rightarrow> state \<Rightarrow> state" where
  "emit t m s = s\<lparr> outbox := outbox s @ [(t, m)] \<rparr>"

definition consoleError :: "string \<Rightarrow> state \<Rightarrow> state" where
  "consoleError m s = s\<lparr> console_error := console_error s @ [m] \<rparr>"

definition issue :: "db_op \<Rightarrow> state \<Rightarrow> state" where
  "issue q s = s\<lparr> dbTrace := dbTrace s @ [q] \<rparr>"

definition roomName :: "string \<Rightarrow> string" where
  "roomName k = ''room:dosen_'' @ k"

definition socketJoin :: "string \<Rightarrow> string \<Rightarrow> state \<Rightarrow> state" where
  "socketJoin sid room s = s\<lparr> rooms := (rooms s)(room := finsert sid (rooms s room)) \<rparr>"

subsection \<open>checkGeofence\<close>

text \<open>
  \<open>checkGeofence\<close> reads the zones from the database; a rejected read is caught, logged
  and answered with the masked location.
\<close>

definition checkGeofence :: "env \<Rightarrow> real \<Rightarrow> real \<Rightarrow> state \<Rightarrow> geofence_result \<times> state" where
  "checkGeofence e lat long s =
     (let s1 = issue SelectGeofences s
      in if failGeofences e
         then (maskedResult, consoleError ''Error checking geofence:'' s1)
         else (checkGeofence_loop (db_geofences s1) lat long, s1))"

section \<open>The location pipeline (sockets/socketManager.js)\<close>

subsection \<open>saveLocation\<close>

definition saveLocation :: "env \<Rightarrow> string \<Rightarrow> geofence_result \<Rightarrow> state \<Rightarrow> state" where
  "saveLocation e userId g s =
     (let row = \<lparr> loc_latitude = displayLat g, loc_longitude = displayLong g,
                  loc_position_name = locationName g, loc_last_updated = dbStamp e \<rparr>;
          s1 = issue (SelectLocationExists userId) s
      in if failLocationSelect e then consoleError ''Error saving location:'' s1
         else (case db_locations s1 userId of
                 Some existing \<Rightarrow>
                   (let s2 = issue (UpdateLocation userId) s1
                    in if failLocationWrite e then consoleError ''Error saving location:'' s2
                       else s2\<lparr> db_locations := (db_locations s2)(userId \<mapsto> row) \<rparr>)
               | None \<Rightarrow>
                   (let s2 = issue (InsertLocation userId) s1
                    in if failLocationWrite e then consoleError ''Error saving location:'' s2
                       else s2\<lparr> db_locations := (db_locations s2)(userId \<mapsto> row) \<rparr>)))"

subsection \<open>logLocationToHistory\<close>

text \<open>
  \<open>ORDER BY logged_at DESC LIMIT 1\<close>: a row with the greatest \<open>logged_at\<close>; among rows
  with equal stamps SQL leaves the choice open, the earliest inserted is taken here.
\<close>

fun latestRow :: "history_row list \<Rightarrow> history_row option" where
  "latestRow [] = None"
| "latestRow (r # rs) =
     (case latestRow rs of
        None \<Rightarrow> Some r
      | Some m \<Rightarrow> if h_logged_at r < h_logged_at m then Some m else Some r)"

definition selectLastHistory ::
  "history_row list \<Rightarrow> string \<Rightarrow> nat \<Rightarrow> string \<Rightarrow> history_row option" where
  "selectLastHistory rows userId dayOfWeek today =
     latestRow (filter (\<lambda>r. h_dosen_id r = userId \<and> h_day_of_week r = dayOfWeek \<and>
                             h_logged_date r = today) rows)"

definition logLocationToHistory :: "env \<Rightarrow> string \<Rightarrow> geofence_result \<Rightarrow> state \<Rightarrow> state" where
  "logLocationToHistory e userId g s =
     (if \<not> isInside g then s
      else
        (let dayOfWeek = histDayOfWeek e;
             today = histToday e;
             s1 = issue (SelectLastHistory userId dayOfWeek today) s
         in if failHistorySelect e
            then consoleError ''Error logging location to history:'' s1
            else
              (let lastLog = selectLastHistory (db_location_history s1) userId dayOfWeek today;
                   shouldLog =
                     (case lastLog of
                        None \<Rightarrow> True
                      | Some l \<Rightarrow>
                          (let timeSinceLastLog = clkHistory e - h_logged_at l;
                               locationChanged = (h_location_name l \<noteq> locationName g);
                               hourPassed = (timeSinceLastLog \<ge> LOCATION_LOG_THROTTLE_MS)
                           in if locationChanged then True
                              else if hourPassed then True
                              else False))
               in if shouldLog
                  then (let s2 = issue (InsertHistory userId) s1
                        in if failHistoryInsert e
                           then consoleError ''Error logging location to history:'' s2
                           else s2\<lparr> db_location_history := db_location_history s2 @
                                  [\<lparr> h_id = newUuid e, h_dosen_id = userId,
                                     h_day_of_week = dayOfWeek,
                                     h_location_name = locationName g,
                                     h_latitude = displayLat g,
                                     h_longitude = displayLong g,
                                     h_logged_date = today,
                                     h_logged_at = dbStamp e \<rparr>] \<rparr>)
                  else s1)))"

subsection \<open>handleLocationUpdate\<close>

text \<open>The part of \<open>handleLocationUpdate\<close> after the payload has been validated.\<close>

definition processLocation :: "env \<Rightarrow> string \<Rightarrow> user \<Rightarrow> real \<Rightarrow> real \<Rightarrow> state \<Rightarrow> state" where
  "processLocation e socketId u lat long s =
     (case checkGeofence e lat long s of
        (geofenceResult, s1) \<Rightarrow>
          (let locationData =
                 \<lparr> ld_dosen_id = uid u, ld_name = uname u,
                   ld_latitude = displayLat geofenceResult,
                   ld_longitude = displayLong geofenceResult,
                   ld_position_name = locationName geofenceResult,
                   ld_is_inside = isInside geofenceResult,
                   ld_last_updated = clkBroadcast e \<rparr>;
               s2 = emit (ToRoom (roomName (uid u))) (DosenMoved locationData) s1;
               now = clkSave e;
               lastSave = (case lastSaveTimestamps s2 (uid u) of None \<Rightarrow> 0 | Some t \<Rightarrow> t);
               s3 = (if now - lastSave \<ge> LOCATION_SAVE_THROTTLE_MS
                     then (let s' = saveLocation e (uid u) geofenceResult s2
                           in s'\<lparr> lastSaveTimestamps := (lastSaveTimestamps s')(uid u \<mapsto> now) \<rparr>)
                     else s2);
               s4 = logLocationToHistory e (uid u) geofenceResult s3
           in emit (ToSocket socketId) (LocationUpdated True locationData) s4))"

text \<open>
  The payload is \<open>None\<close> when the client sent \<open>null\<close> or nothing: reading a property of
  it throws, which the handler's \<open>catch\<close> turns into an error event.
\<close>

definition handleLocationUpdate :: "env \<Rightarrow> string \<Rightarrow> user \<Rightarrow> jsobject option \<Rightarrow> state \<Rightarrow> state" where
  "handleLocationUpdate e socketId u data s =
     (if urole u \<noteq> Dosen
      then emit (ToSocket socketId) (ErrorMsg ''Only dosen can update location'') s
      else
        (case data of
           None \<Rightarrow> emit (ToSocket socketId) (ErrorMsg ''Failed to update location'')
                     (consoleError ''Location update error:'' s)
         | Some d \<Rightarrow>
             (let lat = nullish (d ''lat'') (d ''latitude'');
                  long = nullish (d ''long'') (d ''longitude'')
              in if lat = JUndefined \<or> long = JUndefined
                 then emit (ToSocket socketId)
                        (ErrorMsg ''Latitude and longitude are required'') s
                 else (case (lat, long) of
                         (JNum la, JNum lo) \<Rightarrow> processLocation e socketId u la lo s
                       | _ \<Rightarrow> emit (ToSocket socketId)
                                (ErrorMsg ''Invalid coordinate format'') s))))"

section \<open>Presence (sockets/socketManager.js)\<close>

text \<open>\<open>map.get(key) || new Set()\<close>: a stored set is an object, hence never falsy.\<close>

definition getOrNewSet :: "(string \<rightharpoonup> string fset) \<Rightarrow> string \<Rightarrow> string fset" where
  "getOrNewSet m key = (case m key of None \<Rightarrow> {||} | Some sockets \<Rightarrow> sockets)"

definition isDosenOnline :: "(real \<Rightarrow> string) \<Rightarrow> state \<Rightarrow> jsval \<Rightarrow> bool" where
  "isDosenOnline nts s dosenId =
     (let key = jsString nts dosenId
      in case onlineDosenMap s key of None \<Rightarrow> False | Some sockets \<Rightarrow> fcard sockets > 0)"

definition isUserOnline :: "(real \<Rightarrow> string) \<Rightarrow> state \<Rightarrow> jsval \<Rightarrow> bool" where
  "isUserOnline nts s userId =
     (let key = jsString nts userId
      in case onlineUsersMap s key of None \<Rightarrow> False | Some sockets \<Rightarrow> fcard sockets > 0)"

definition handleDosenConnection :: "string \<Rightarrow> user \<Rightarrow> state \<Rightarrow> state" where
  "handleDosenConnection socketId u s =
     (let s1 = socketJoin socketId (roomName (uid u)) s;
          dosenKey = uid u;
          dosenSockets = finsert socketId (getOrNewSet (onlineDosenMap s1) dosenKey);
          s2 = s1\<lparr> onlineDosenMap := (onlineDosenMap s1)(dosenKey \<mapsto> dosenSockets) \<rparr>;
          userKey = uid u;
          userSockets = finsert socketId (getOrNewSet (onlineUsersMap s2) userKey);
          s3 = s2\<lparr> onlineUsersMap := (onlineUsersMap s2)(userKey \<mapsto> userSockets) \<rparr>
      in if fcard dosenSockets = 1
         then emit ToAll (DosenStatus (JStr (uid u)) (uname u) True) s3
         else s3)"

definition handleMahasiswaConnection :: "string \<Rightarrow> user \<Rightarrow> state \<Rightarrow> state" where
  "handleMahasiswaConnection socketId u s =
     (let userKey = uid u;
          userSockets = finsert socketId (getOrNewSet (onlineUsersMap s) userKey)
      in s\<lparr> onlineUsersMap := (onlineUsersMap s)(userKey \<mapsto> userSockets) \<rparr>)"

text \<open>
  The \<open>connection\<close> callback, as far as presence goes: it dispatches on the role of the
  token. (The inactivity timer of a dosen socket is a timer of the runtime and is left out.)
\<close>

definition onConnection :: "string \<Rightarrow> user \<Rightarrow> state \<Rightarrow> state" where
  "onConnection socketId u s =
     (let s1 = (if urole u = Dosen then handleDosenConnection socketId u s else s)
      in if urole u = Mahasiswa then handleMahasiswaConnection socketId u s1 else s1)"

definition handleDisconnect :: "string \<Rightarrow> user \<Rightarrow> state \<Rightarrow> state" where
  "handleDisconnect socketId u s =
     (let userKey = uid u;
          s1 = (case onlineUsersMap s userKey of
                  None \<Rightarrow> s
                | Some userSockets \<Rightarrow>
                    (let userSockets' = userSockets |-| {|socketId|}
                     in if fcard userSockets' = 0
                        then s\<lparr> onlineUsersMap := (onlineUsersMap s)(userKey := None) \<rparr>
                        else s\<lparr> onlineUsersMap := (onlineUsersMap s)(userKey \<mapsto> userSockets') \<rparr>))
      in if urole u = Dosen
         then (let dosenKey = uid u
               in case onlineDosenMap s1 dosenKey of
                    None \<Rightarrow> s1
                  | Some dosenSockets \<Rightarrow>
                      (let dosenSockets' = dosenSockets |-| {|socketId|}
                       in if fcard dosenSockets' = 0
                          then emit ToAll (DosenStatus (JStr (uid u)) (uname u) False)
                                 (s1\<lparr> onlineDosenMap := (onlineDosenMap s1)(dosenKey := None) \<rparr>)
                          else s1\<lparr> onlineDosenMap :=
                                     (onlineDosenMap s1)(dosenKey \<mapsto> dosenSockets') \<rparr>))
         else s1)"

subsection \<open>The earlier, counting registry (first version in sockets/socketManager.js)\<close>

text \<open>
  The version of the file that keeps a socket count per id instead of a set of socket ids.
  \<open>map.get(id) || 0\<close> reads a missing or zero count as 0.
\<close>

record count_state =
  onlineDosenCount :: "string \<rightharpoonup> int"
  onlineUsersCount :: "string \<rightharpoonup> int"
  count_outbox :: "(target \<times> message) list"

definition getOrZero :: "(string \<rightharpoonup> int) \<Rightarrow> string \<Rightarrow> int" where
  "getOrZero m key = (case m key of None \<Rightarrow> 0 | Some c \<Rightarrow> c)"

definition isDosenOnline_count :: "count_state \<Rightarrow> string \<Rightarrow> bool" where
  "isDosenOnline_count s dosenId =
     (case onlineDosenCount s dosenId of None \<Rightarrow> False | Some socketCount \<Rightarrow> socketCount > 0)"

definition isUserOnline_count :: "count_state \<Rightarrow> string \<Rightarrow> bool" where
  "isUserOnline_count s userId =
     (case onlineUsersCount s userId of None \<Rightarrow> False | Some socketCount \<Rightarrow> socketCount > 0)"

definition handleDosenConnection_count :: "user \<Rightarrow> count_state \<Rightarrow> count_state" where
  "handleDosenConnection_count u s =
     (let currentCount = getOrZero (onlineDosenCount s) (uid u);
          s1 = s\<lparr> onlineDosenCount := (onlineDosenCount s)(uid u \<mapsto> currentCount + 1) \<rparr>;
          userCount = getOrZero (onlineUsersCount s1) (uid u);
          s2 = s1\<lparr> onlineUsersCount := (onlineUsersCount s1)(uid u \<mapsto> userCount + 1) \<rparr>
      in if currentCount = 0
         then s2\<lparr> count_outbox := count_outbox s2 @
                     [(ToAll, DosenStatus (JStr (uid u)) (uname u) True)] \<rparr>
         else s2)"

definition handleMahasiswaConnection_count :: "user \<Rightarrow> count_state \<Rightarrow> count_state" where
  "handleMahasiswaConnection_count u s =
     (let userCount = getOrZero (onlineUsersCount s) (uid u)
      in s\<lparr> onlineUsersCount := (onlineUsersCount s)(uid u \<mapsto> userCount + 1) \<rparr>)"

definition onConnection_count :: "user \<Rightarrow> count_state \<Rightarrow> count_state" where
  "onConnection_count u s =
     (let s1 = (if urole u = Dosen then handleDosenConnection_count u s else s)
      in if urole u = Mahasiswa then handleMahasiswaConnection_count u s1 else s1)"

definition handleDisconnect_count :: "user \<Rightarrow> count_state \<Rightarrow> count_state" where
  "handleDisconnect_count u s =
     (let s1 =
        (if urole u = Dosen
         then (let currentCount = getOrZero (onlineDosenCount s) (uid u);
                   newCount = max 0 (currentCount - 1)
               in if newCount = 0
                  then s\<lparr> onlineDosenCount := (onlineDosenCount s)(uid u := None),
                          count_outbox := count_outbox s @
                            [(ToAll, DosenStatus (JStr (uid u)) (uname u) False)] \<rparr>
                  else s\<lparr> onlineDosenCount := (onlineDosenCount s)(uid u \<mapsto> newCount) \<rparr>)
         else s);
          currentUserCount = getOrZero (onlineUsersCount s1) (uid u);
          newUserCount = max 0 (currentUserCount - 1)
      in if newUserCount = 0
         then s1\<lparr> onlineUsersCount := (onlineUsersCount s1)(uid u := None) \<rparr>
         else s1\<lparr> onlineUsersCount := (onlineUsersCount s1)(uid u \<mapsto> newUserCount) \<rparr>)"

subsection \<open>Traces of connections of one identity\<close>

datatype event = Connect string | Disconnect string

fun step :: "user \<Rightarrow> state \<Rightarrow> event \<Rightarrow> state" where
  "step u s (Connect socketId) = onConnection socketId u s"
| "step u s (Disconnect socketId) = handleDisconnect socketId u s"

definition run :: "user \<Rightarrow> state \<Rightarrow> event list \<Rightarrow> state" where
  "run u s es = foldl (step u) s es"

fun step_count :: "user \<Rightarrow> count_state \<Rightarrow> event \<Rightarrow> count_state" where
  "step_count u s (Connect socketId) = onConnection_count u s"
| "step_count u s (Disconnect socketId) = handleDisconnect_count u s"

definition run_count :: "user \<Rightarrow> count_state \<Rightarrow> event list \<Rightarrow> count_state" where
  "run_count u s es = foldl (step_count u) s es"

text \<open>
  The traces the transport produces: a socket id connects while it is not connected, and a
  socket disconnects only after it has connected, once. \<open>live\<close> are the ids connected so far.
\<close>

fun interleaving :: "string fset \<Rightarrow> event list \<Rightarrow> bool" where
  "interleaving live [] = True"
| "interleaving live (Connect socketId # es) =
     (socketId |\<notin>| live \<and> interleaving (finsert socketId live) es)"
| "interleaving live (Disconnect socketId # es) =
     (socketId |\<in>| live \<and> interleaving (live |-| {|socketId|}) es)"

fun isConnect :: "event \<Rightarrow> bool" where
  "isConnect (Connect socketId) = True"
| "isConnect (Disconnect socketId) = False"

definition connects :: "event list \<Rightarrow> nat" where
  "connects es = length (filter isConnect es)"

definition disconnects :: "event list \<Rightarrow> nat" where
  "disconnects es = length (filter (\<lambda>e. \<not> isConnect e) es)"

section \<open>Joining a room (sockets/socketManager.js)\<close>






section \<open>Approving a request (controllers/trackingController.js)\<close>


section \<open>Observations on a run\<close>

text \<open>Which statements of the trace write the \<open>locations\<close> table, and which touch the history.\<close>

fun isLocationWrite :: "db_op \<Rightarrow> bool" where
  "isLocationWrite (UpdateLocation userId) = True"
| "isLocationWrite (InsertLocation userId) = True"
| "isLocationWrite q = False"

text \<open>The statement \<open>saveLocation\<close> begins with: one per call of it.\<close>

fun isSaveCall :: "db_op \<Rightarrow> bool" where
  "isSaveCall (SelectLocationExists userId) = True"
| "isSaveCall q = False"

fun isHistoryOp :: "db_op \<Rightarrow> bool" where
  "isHistoryOp (SelectLastHistory userId dayOfWeek today) = True"
| "isHistoryOp (InsertHistory userId) = True"
| "isHistoryOp q = False"

text \<open>The payload built from a classification.\<close>

definition payloadOf :: "env \<Rightarrow> user \<Rightarrow> geofence_result \<Rightarrow> location_data" where
  "payloadOf e u g =
     \<lparr> ld_dosen_id = uid u, ld_name = uname u, ld_latitude = displayLat g,
       ld_longitude = displayLong g, ld_position_name = locationName g,
       ld_is_inside = isInside g, ld_last_updated = clkBroadcast e \<rparr>"

definition rowOf :: "env \<Rightarrow> geofence_result \<Rightarrow> location_row" where
  "rowOf e g =
     \<lparr> loc_latitude = displayLat g, loc_longitude = displayLong g,
       loc_position_name = locationName g, loc_last_updated = dbStamp e \<rparr>"


text \<open>
  The sockets of an identity that are connected after a trace, the registry entry that
  stands for a set of connected sockets (an empty set is never stored), and its counterpart
  in the counting registry.
\<close>

fun liveAfter :: "string fset \<Rightarrow> event list \<Rightarrow> string fset" where
  "liveAfter live [] = live"
| "liveAfter live (Connect socketId # es) = liveAfter (finsert socketId live) es"
| "liveAfter live (Disconnect socketId # es) = liveAfter (live |-| {|socketId|}) es"

definition entryOf :: "string fset \<Rightarrow> string fset option" where
  "entryOf live = (if live = {||} then None else Some live)"

definition countEntryOf :: "string fset \<Rightarrow> int option" where
  "countEntryOf live = (if live = {||} then None else Some (int (fcard live)))"

text \<open>Every stored count is positive.\<close>

definition positive :: "(string \<rightharpoonup> int) \<Rightarrow> bool" where
  "positive m \<longleftrightarrow> (\<forall>k c. m k = Some c \<longrightarrow> 0 < c)"

section \<open>Seed data (config/db.js) and example inputs\<close>

text \<open>The two zones \<open>seedDatabase\<close> inserts into an empty \<open>geofences\<close> table.\<close>

definition seedGeofences :: "geofence list" where
  "seedGeofences =
     [ \<lparr> gname = ''UNSRI Indralaya'', glatitude = - 3.219741, glongitude = 104.651220,
         radius_km = Some 2.5 \<rparr>,
       \<lparr> gname = ''UNSRI Palembang'', glatitude = - 2.985028, glongitude = 104.732230,
         radius_km = Some 1.5 \<rparr> ]"

text \<open>An environment in which no database call rejects, and a freshly started server.\<close>

definition env0 :: env where
  "env0 = \<lparr> clkBroadcast = 1700000000000, clkSave = 1700000000000,
            clkHistory = 1700000000000, histDayOfWeek = 2, histToday = ''2023-11-14'',
            dbStamp = 1700000000000, newUuid = ''h-1'',
            failGeofences = False, failLocationSelect = False, failLocationWrite = False,
            failHistorySelect = False, failHistoryInsert = False,
            failPermissionSelect = False, failUserSelect = False,
            failPermissionWrite = False \<rparr>"

definition state0 :: state where
  "state0 = \<lparr> onlineDosenMap = Map.empty, onlineUsersMap = Map.empty,
              lastSaveTimestamps = Map.empty, rooms = (\<lambda>r. {||}), outbox = [],
              console_error = [], dbTrace = [], db_users = Map.empty,
              db_geofences = seedGeofences, db_locations = Map.empty,
              db_location_history = [], db_tracking_permissions = [] \<rparr>"

text \<open>Two zones that both contain the south pole; the second is centred on it.\<close>

definition twoZones :: "geofence list" where
  "twoZones =
     [ \<lparr> gname = ''A'', glatitude = 90, glongitude = 0, radius_km = Some 30000 \<rparr>,
       \<lparr> gname = ''B'', glatitude = - 90, glongitude = 0, radius_km = Some 1 \<rparr> ]"

text \<open>
  Two zones for the sample (8, 0): the first is centred on the opposite point of the globe
  and covers the earth, the second is centred on the sample.
\<close>

definition antipodalZones :: "geofence list" where
  "antipodalZones =
     [ \<lparr> gname = ''A'', glatitude = - 8, glongitude = 180, radius_km = Some 30000 \<rparr>,
       \<lparr> gname = ''B'', glatitude = 8, glongitude = 0, radius_km = Some 1 \<rparr> ]"

text \<open>A lecturer, a sample at the centre of the first seeded zone, and one in Jakarta.\<close>

definition dosen1 :: user where
  "dosen1 = \<lparr> uid = ''dosen-1'', uname = ''Dr. Budi Santoso'', urole = Dosen \<rparr>"

definition campusPayload :: jsobject where
  "campusPayload =
     (\<lambda>k. if k = ''latitude'' then JNum (- 3.219741)
          else if k = ''longitude'' then JNum 104.651220 else JUndefined)"

definition jakartaPayload :: jsobject where
  "jakartaPayload =
     (\<lambda>k. if k = ''lat'' then JNum (- 6.2088)
          else if k = ''long'' then JNum 106.8456 else JUndefined)"

text \<open>The classification of the campus sample and a history row logged that morning.\<close>

definition indralayaResult :: geofence_result where
  "indralayaResult =
     \<lparr> isInside = True, locationName = ''UNSRI Indralaya'',
       displayLat = - 3.219741, displayLong = 104.651220 \<rparr>"

definition morningRow :: history_row where
  "morningRow =
     \<lparr> h_id = ''h-0'', h_dosen_id = ''dosen-1'', h_day_of_week = 2,
       h_location_name = ''UNSRI Indralaya'', h_latitude = - 3.219741,
       h_longitude = 104.651220, h_logged_date = ''2023-11-14'',
       h_logged_at = 1700000000000 \<rparr>"

text \<open>A student, and the counting registry of a freshly started server.\<close>

definition mahasiswa1 :: user where
  "mahasiswa1 = \<lparr> uid = ''mhs-1'', uname = ''Andi Wijaya'', urole = Mahasiswa \<rparr>"

definition counts0 :: count_state where
  "counts0 = \<lparr> onlineDosenCount = Map.empty, onlineUsersCount = Map.empty,
                count_outbox = [] \<rparr>"

text \<open>
  A rendering of whole numbers in decimal, as the language prints them; the examples use no
  fractions.
\<close>

fun digitsOf :: "nat \<Rightarrow> string" where
  "digitsOf n =
     (if n < 10 then [''0123456789'' ! n]
      else digitsOf (n div 10) @ [''0123456789'' ! (n mod 10)])"

definition wholeNumberText :: "real \<Rightarrow> string" where
  "wholeNumberText r = (if r < 0 then ''-'' else []) @ digitsOf (nat \<lfloor>\<bar>r\<bar>\<rfloor>)"






section \<open>Geofence classification: first match wins\<close>

lemma haversine_same_point: "haversineDistance lat long lat long = 0"
  by (simp add: haversineDistance_def toRad_def atan2_def)

lemma haversine_poles: "haversineDistance (- 90) 0 90 0 = 6371 * pi"
  by (simp add: haversineDistance_def toRad_def atan2_def Let_def)

lemma loop_first_match:
  "i < length gs \<Longrightarrow>
   haversineDistance lat long (glatitude (gs ! i)) (glongitude (gs ! i))
     \<le> radiusNumber (radius_km (gs ! i)) \<Longrightarrow>
   \<forall>j<i. \<not> haversineDistance lat long (glatitude (gs ! j)) (glongitude (gs ! j))
             \<le> radiusNumber (radius_km (gs ! j)) \<Longrightarrow>
   checkGeofence_loop gs lat long =
     \<lparr> isInside = True, locationName = gname (gs ! i), displayLat = lat, displayLong = long \<rparr>"
proof (induction gs arbitrary: i)
  case Nil
  then show ?case by simp
next
  case (Cons g gs)
  show ?case
  proof (cases i)
    case 0
    with Cons.prems show ?thesis by simp
  next
    case (Suc k)
    from Cons.prems(3) Suc have miss: "\<not> haversineDistance lat long (glatitude g) (glongitude g)
             \<le> radiusNumber (radius_km g)"
      by (metis nth_Cons_0 zero_less_Suc)
    have rest: "\<forall>j<k. \<not> haversineDistance lat long (glatitude (gs ! j)) (glongitude (gs ! j))
             \<le> radiusNumber (radius_km (gs ! j))"
    proof (intro allI impI)
      fix j assume "j < k"
      then have "Suc j < i" using Suc by simp
      with Cons.prems(3) show "\<not> haversineDistance lat long (glatitude (gs ! j)) (glongitude (gs ! j))
             \<le> radiusNumber (radius_km (gs ! j))"
        by (metis nth_Cons_Suc)
    qed
    from Cons.prems(1,2) Suc have "checkGeofence_loop gs lat long =
      \<lparr> isInside = True, locationName = gname (gs ! k), displayLat = lat, displayLong = long \<rparr>"
      using Cons.IH[of k] rest by simp
    with miss Suc show ?thesis by simp
  qed
qed

text \<open>
  C1, in exact arithmetic. When the zones have been read, \<open>checkGeofence\<close> answers with the
  first zone of the list, in list order, whose haversine distance from the sample is at
  most its radius, whatever the later zones are (a closer one included): the result is
  inside, carries that zone's name, and its display coordinates are the raw input
  coordinates. In the double arithmetic of the source this fails where the distance is
  \<open>NaN\<close>; see \<open>antipodal_sample_exact\<close> below.
\<close>

lemma checkGeofence_first_match:
  assumes "\<not> failGeofences e"
    and "i < length (db_geofences s)"
    and "haversineDistance lat long (glatitude (db_geofences s ! i))
           (glongitude (db_geofences s ! i)) \<le> radiusNumber (radius_km (db_geofences s ! i))"
    and "\<forall>j<i. \<not> haversineDistance lat long (glatitude (db_geofences s ! j))
           (glongitude (db_geofences s ! j)) \<le> radiusNumber (radius_km (db_geofences s ! j))"
  shows "fst (checkGeofence e lat long s) =
           \<lparr> isInside = True, locationName = gname (db_geofences s ! i),
             displayLat = lat, displayLong = long \<rparr>"
  using assms loop_first_match[of i "db_geofences s" lat long]
  by (simp add: checkGeofence_def issue_def Let_def)

lemma checkGeofence_first_match_examples:
  "haversineDistance (- 90) 0 (- 90) 0 < haversineDistance (- 90) 0 90 0 \<and>
   haversineDistance (- 90) 0 (- 90) 0 \<le> 1 \<and>
   fst (checkGeofence env0 (- 90) 0 (state0\<lparr> db_geofences := twoZones \<rparr>)) =
     \<lparr> isInside = True, locationName = ''A'', displayLat = - 90, displayLong = 0 \<rparr> \<and>
   fst (checkGeofence env0 (- 3.219741) 104.651220 state0) =
     \<lparr> isInside = True, locationName = ''UNSRI Indralaya'',
       displayLat = - 3.219741, displayLong = 104.651220 \<rparr>"
proof -
  have near: "haversineDistance (- 90) 0 90 0 \<le> 30000"
    using pi_less_4 by (simp add: haversine_poles)
  have poles: "fst (checkGeofence env0 (- 90) 0 (state0\<lparr> db_geofences := twoZones \<rparr>)) =
     \<lparr> isInside = True,
       locationName = gname (db_geofences (state0\<lparr> db_geofences := twoZones \<rparr>) ! 0),
       displayLat = - 90, displayLong = 0 \<rparr>"
    using near
    by (intro checkGeofence_first_match) (simp_all add: env0_def twoZones_def radiusNumber_def)
  have centre: "fst (checkGeofence env0 (- 3.219741) 104.651220 state0) =
     \<lparr> isInside = True, locationName = gname (db_geofences state0 ! 0),
       displayLat = - 3.219741, displayLong = 104.651220 \<rparr>"
    by (intro checkGeofence_first_match)
       (simp_all add: env0_def state0_def seedGeofences_def radiusNumber_def
          haversine_same_point)
  from poles centre show ?thesis
    using pi_gt_zero
    by (simp add: haversine_same_point haversine_poles twoZones_def state0_def
        seedGeofences_def)
qed

text \<open>
  The sample (8, 0) and the zones \<open>antipodalZones\<close>. On the reals \<open>a\<close> is exactly 1, the
  edge of the domain of the square root, the distance to the first centre is
  \<open>6371 * pi\<close> and the first zone is returned. The source computes
  \<open>a = 1.0000000000000002\<close>, takes the square root of a negative number, and passes the first
  zone over for the second.
\<close>

lemma antipodal_a_exact:
  "sin (toRad (- 8 - 8) / 2) * sin (toRad (- 8 - 8) / 2) +
   cos (toRad 8) * cos (toRad (- 8)) * sin (toRad (180 - 0) / 2) * sin (toRad (180 - 0) / 2) = 1"
proof -
  have h: "toRad (180 - 0) / 2 = pi / 2" by (simp add: toRad_def)
  have l: "toRad (- 8 - 8) / 2 = - toRad 8" by (simp add: toRad_def)
  have n: "toRad (- 8) = - toRad 8" by (simp add: toRad_def)
  have "sin (toRad 8) * sin (toRad 8) + cos (toRad 8) * cos (toRad 8) = 1"
    using sin_cos_squared_add[of "toRad 8"] by (simp add: power2_eq_square)
  then show ?thesis unfolding h l n by simp
qed

lemma antipodal_distance_exact: "haversineDistance 8 0 (- 8) 180 = 6371 * pi"
proof -
  have "haversineDistance 8 0 (- 8) 180 = 6371 * (2 * atan2 (sqrt 1) (sqrt (1 - 1)))"
    unfolding haversineDistance_def Let_def antipodal_a_exact ..
  then show ?thesis by (simp add: atan2_def)
qed

lemma antipodal_sample_exact:
  "checkGeofence_loop antipodalZones 8 0 =
     \<lparr> isInside = True, locationName = ''A'', displayLat = 8, displayLong = 0 \<rparr>"
  using pi_less_4
  by (simp add: antipodalZones_def antipodal_distance_exact radiusNumber_def)

section \<open>Geofence classification: the masked location\<close>

text \<open>A lower bound of the distance between two points whose latitudes differ.\<close>

lemma atan2_sqrt_lower:
  assumes "0 \<le> a"
  shows "arctan (sqrt a) \<le> atan2 (sqrt a) (sqrt (1 - a))"
proof -
  have y0: "0 \<le> sqrt a" using assms by simp
  consider "0 < sqrt (1 - a)" | "sqrt (1 - a) < 0" | "sqrt (1 - a) = 0" by linarith
  then show ?thesis
  proof cases
    case 1
    then have "1 - a > 0" by simp
    then have "sqrt (1 - a) \<le> 1" using assms by simp
    then have "sqrt a \<le> sqrt a / sqrt (1 - a)"
      using 1 y0 by (simp add: pos_le_divide_eq mult_left_le)
    then show ?thesis using 1 by (simp add: atan2_def arctan_le_iff)
  next
    case 2
    have "arctan (sqrt a) < pi / 2" by (rule arctan_ubound)
    moreover have "- (pi / 2) < arctan (sqrt a / sqrt (1 - a))" by (rule arctan_lbound)
    ultimately show ?thesis using 2 y0 by (simp add: atan2_def)
  next
    case 3
    then have "a = 1" by simp
    then show ?thesis using arctan_ubound[of 1] by (simp add: atan2_def)
  qed
qed

lemma cos_toRad_nonneg:
  assumes "\<bar>lat\<bar> \<le> 90"
  shows "0 \<le> cos (toRad lat)"
proof -
  have lo: "- 90 \<le> lat" and hi: "lat \<le> 90" using assms by linarith+
  have "(- 90) * pi \<le> lat * pi" using lo by (rule mult_right_mono) simp
  moreover have "lat * pi \<le> 90 * pi" using hi by (rule mult_right_mono) simp
  ultimately show ?thesis by (intro cos_ge_zero) (simp_all add: toRad_def)
qed

lemma haversine_lower:
  assumes "\<bar>lat1\<bar> \<le> 90" "\<bar>lat2\<bar> \<le> 90"
  shows "6371 * (2 * arctan \<bar>sin (toRad (lat2 - lat1) / 2)\<bar>) \<le> haversineDistance lat1 lon1 lat2 lon2"
proof -
  let ?x = "toRad (lat2 - lat1) / 2"
  let ?y = "toRad (lon2 - lon1) / 2"
  let ?a = "sin ?x * sin ?x + cos (toRad lat1) * cos (toRad lat2) * sin ?y * sin ?y"
  have c1: "0 \<le> cos (toRad lat1)" using assms(1) by (rule cos_toRad_nonneg)
  have c2: "0 \<le> cos (toRad lat2)" using assms(2) by (rule cos_toRad_nonneg)
  have "0 \<le> cos (toRad lat1) * cos (toRad lat2)" using c1 c2 by simp
  moreover have "0 \<le> sin ?y * sin ?y" by simp
  ultimately have "0 \<le> cos (toRad lat1) * cos (toRad lat2) * (sin ?y * sin ?y)"
    by (rule mult_nonneg_nonneg)
  then have lo: "sin ?x * sin ?x \<le> ?a" by (simp add: mult.assoc)
  have a0: "0 \<le> ?a" using lo by (smt (verit) zero_le_square)
  have "\<bar>sin ?x\<bar> = sqrt (sin ?x * sin ?x)" by simp
  also have "\<dots> \<le> sqrt ?a" using lo by (rule real_sqrt_le_mono)
  finally have "arctan \<bar>sin ?x\<bar> \<le> arctan (sqrt ?a)" by (simp add: arctan_le_iff)
  also have "\<dots> \<le> atan2 (sqrt ?a) (sqrt (1 - ?a))" using a0 by (rule atan2_sqrt_lower)
  finally show ?thesis by (simp add: haversineDistance_def Let_def)
qed

lemma sin_lower: "x - x\<^sup>2 / 2 \<le> sin (x::real)"
proof -
  have sum: "(\<Sum>m<2. sin_coeff m * x ^ m) = x"
    by (simp add: sin_coeff_def numeral_2_eq_2)
  have "\<bar>sin x - (\<Sum>m<2. sin_coeff m * x ^ m)\<bar> \<le> inverse (fact 2) * \<bar>x\<bar> ^ 2"
    by (rule Maclaurin_sin_bound)
  then have "\<bar>sin x - x\<bar> \<le> x\<^sup>2 / 2"
    unfolding sum by simp
  then show ?thesis by linarith
qed

lemma tan_small: "tan (1 / 1000 :: real) \<le> 1 / 500"
proof -
  let ?u = "1 / 1000 :: real"
  have "?u \<le> pi / 3" using pi_ge_two by simp
  then have "cos (pi / 3) \<le> cos ?u"
    using pi_ge_two by (intro cos_monotone_0_pi_le) auto
  then have c: "1 / 2 \<le> cos ?u" by (simp add: cos_60)
  have s: "sin ?u \<le> ?u" by (rule sin_x_le_x) simp
  have "tan ?u = sin ?u / cos ?u" by (simp add: tan_def)
  also have "\<dots> \<le> ?u / (1 / 2)"
    using c s by (intro frac_le) auto
  finally show ?thesis by simp
qed

lemma far_in_latitude:
  assumes "\<bar>lat1\<bar> \<le> 90" "\<bar>lat2\<bar> \<le> 90" "2 \<le> lat2 - lat1" "lat2 - lat1 \<le> 4"
  shows "12 < haversineDistance lat1 lon1 lat2 lon2"
proof -
  let ?x = "toRad (lat2 - lat1) / 2"
  have x_lo: "1 / 90 \<le> ?x"
  proof -
    have "2 * 2 / 360 \<le> pi * (lat2 - lat1) / 360"
      using pi_ge_two assms(3) by (intro divide_right_mono mult_mono) auto
    then show ?thesis by (simp add: toRad_def field_simps)
  qed
  have x_hi: "?x \<le> 1 / 20"
  proof -
    have "pi * (lat2 - lat1) / 360 \<le> 4 * 4 / 360"
      using pi_less_4 assms(3,4) by (intro divide_right_mono mult_mono) auto
    then show ?thesis by (simp add: toRad_def field_simps)
  qed
  have "?x - ?x\<^sup>2 / 2 \<le> sin ?x" by (rule sin_lower)
  moreover have "?x\<^sup>2 \<le> (1 / 20)\<^sup>2" using x_lo x_hi by (intro power_mono) auto
  ultimately have "1 / 500 \<le> sin ?x" using x_lo by (simp add: power2_eq_square)
  then have "tan (1 / 1000) \<le> \<bar>sin ?x\<bar>" using tan_small by linarith
  then have "arctan (tan (1 / 1000)) \<le> arctan \<bar>sin ?x\<bar>" by (simp add: arctan_le_iff)
  moreover have "arctan (tan (1 / 1000 :: real)) = 1 / 1000"
    using pi_ge_two by (intro arctan_tan) auto
  ultimately have "1 / 1000 \<le> arctan \<bar>sin ?x\<bar>" by simp
  then have "12 < 6371 * (2 * arctan \<bar>sin ?x\<bar>)" by simp
  then show ?thesis using haversine_lower[OF assms(1,2), of lon1 lon2] by linarith
qed

lemma masked_outside_seed:
  "\<forall>g \<in> set seedGeofences.
     \<not> haversineDistance (latitude MASKED_LOCATION) (longitude MASKED_LOCATION)
          (glatitude g) (glongitude g) \<le> radiusNumber (radius_km g)"
proof -
  have 1: "12 < haversineDistance (- 6.2088) 106.8456 (- 3.219741) 104.651220"
    by (rule far_in_latitude) simp_all
  have 2: "12 < haversineDistance (- 6.2088) 106.8456 (- 2.985028) 104.732230"
    by (rule far_in_latitude) simp_all
  show ?thesis using 1 2
    by (simp add: seedGeofences_def MASKED_LOCATION_def radiusNumber_def)
qed

lemma loop_no_match:
  "\<forall>g \<in> set gs. \<not> haversineDistance lat long (glatitude g) (glongitude g)
                      \<le> radiusNumber (radius_km g) \<Longrightarrow>
   checkGeofence_loop gs lat long = maskedResult"
  by (induction gs) simp_all





section \<open>The location pipeline, step by step\<close>

lemma checkGeofence_state:
  "outbox (snd (checkGeofence e lat long s)) = outbox s"
  "lastSaveTimestamps (snd (checkGeofence e lat long s)) = lastSaveTimestamps s"
  "db_locations (snd (checkGeofence e lat long s)) = db_locations s"
  "db_location_history (snd (checkGeofence e lat long s)) = db_location_history s"
  "dbTrace (snd (checkGeofence e lat long s)) = dbTrace s @ [SelectGeofences]"
  by (simp_all add: checkGeofence_def issue_def consoleError_def Let_def)

lemma saveLocation_state:
  "outbox (saveLocation e userId g s) = outbox s"
  "lastSaveTimestamps (saveLocation e userId g s) = lastSaveTimestamps s"
  "db_location_history (saveLocation e userId g s) = db_location_history s"
  "filter isHistoryOp (dbTrace (saveLocation e userId g s)) = filter isHistoryOp (dbTrace s)"
  by (simp_all add: saveLocation_def issue_def consoleError_def Let_def split: option.splits)

lemma saveLocation_calls:
  "length (filter isSaveCall (dbTrace (saveLocation e userId g s))) =
     length (filter isSaveCall (dbTrace s)) + 1"
  by (simp add: saveLocation_def issue_def consoleError_def Let_def split: option.splits)

lemma saveLocation_writes:
  "\<not> failLocationSelect e \<Longrightarrow>
   length (filter isLocationWrite (dbTrace (saveLocation e userId g s))) =
     length (filter isLocationWrite (dbTrace s)) + 1"
  by (simp add: saveLocation_def issue_def consoleError_def Let_def split: option.splits)

lemma saveLocation_locations:
  "\<not> failLocationSelect e \<Longrightarrow> \<not> failLocationWrite e \<Longrightarrow>
   db_locations (saveLocation e userId g s) = (db_locations s)(userId \<mapsto> rowOf e g)"
  by (simp add: saveLocation_def issue_def consoleError_def Let_def rowOf_def split: option.splits)

lemma saveLocation_failure:
  "failLocationSelect e \<or> failLocationWrite e \<Longrightarrow>
   db_locations (saveLocation e userId g s) = db_locations s \<and>
   console_error (saveLocation e userId g s) = console_error s @ [''Error saving location:'']"
  by (auto simp: saveLocation_def issue_def consoleError_def Let_def split: option.splits)

lemma logLocationToHistory_state:
  "outbox (logLocationToHistory e userId g s) = outbox s"
  "lastSaveTimestamps (logLocationToHistory e userId g s) = lastSaveTimestamps s"
  "db_locations (logLocationToHistory e userId g s) = db_locations s"
  "filter isLocationWrite (dbTrace (logLocationToHistory e userId g s)) =
     filter isLocationWrite (dbTrace s)"
  "filter isSaveCall (dbTrace (logLocationToHistory e userId g s)) =
     filter isSaveCall (dbTrace s)"
  by (simp_all add: logLocationToHistory_def issue_def consoleError_def Let_def split: option.splits)

lemma history_of_logLocationToHistory:
  "db_location_history (logLocationToHistory e userId g s) =
     (if isInside g \<and> \<not> failHistorySelect e \<and> \<not> failHistoryInsert e \<and>
         (case selectLastHistory (db_location_history s) userId (histDayOfWeek e) (histToday e) of
            None \<Rightarrow> True
          | Some l \<Rightarrow> h_location_name l \<noteq> locationName g \<or>
                      3600000 \<le> clkHistory e - h_logged_at l)
      then db_location_history s @
             [\<lparr> h_id = newUuid e, h_dosen_id = userId, h_day_of_week = histDayOfWeek e,
                h_location_name = locationName g, h_latitude = displayLat g,
                h_longitude = displayLong g, h_logged_date = histToday e,
                h_logged_at = dbStamp e \<rparr>]
      else db_location_history s)"
  by (auto simp: logLocationToHistory_def issue_def consoleError_def Let_def
        LOCATION_LOG_THROTTLE_MS_def split: option.splits)

lemma logLocationToHistory_outside:
  "\<not> isInside g \<Longrightarrow> logLocationToHistory e userId g s = s"
  by (simp add: logLocationToHistory_def)

text \<open>The state between the broadcast and the acknowledgement.\<close>

lemma processLocation_eq:
  "processLocation e socketId u lat long s =
     (let g = fst (checkGeofence e lat long s);
          s2 = emit (ToRoom (roomName (uid u))) (DosenMoved (payloadOf e u g))
                 (snd (checkGeofence e lat long s));
          lastSave = (case lastSaveTimestamps s (uid u) of None \<Rightarrow> 0 | Some t \<Rightarrow> t);
          s3 = (if 60000 \<le> clkSave e - lastSave
                then (saveLocation e (uid u) g s2)
                       \<lparr> lastSaveTimestamps := (lastSaveTimestamps s)(uid u \<mapsto> clkSave e) \<rparr>
                else s2)
      in emit (ToSocket socketId) (LocationUpdated True (payloadOf e u g))
           (logLocationToHistory e (uid u) g s3))"
  by (simp add: processLocation_def payloadOf_def Let_def split_beta emit_def
      LOCATION_SAVE_THROTTLE_MS_def checkGeofence_state saveLocation_state)

lemma handleLocationUpdate_valid:
  "urole u = Dosen \<Longrightarrow>
   nullish (d ''lat'') (d ''latitude'') = JNum la \<Longrightarrow>
   nullish (d ''long'') (d ''longitude'') = JNum lo \<Longrightarrow>
   handleLocationUpdate e socketId u (Some d) s = processLocation e socketId u la lo s"
  by (simp add: handleLocationUpdate_def)

lemma processLocation_outbox:
  "outbox (processLocation e socketId u lat long s) =
     outbox s @
       [(ToRoom (roomName (uid u)), DosenMoved (payloadOf e u (fst (checkGeofence e lat long s)))),
        (ToSocket socketId,
         LocationUpdated True (payloadOf e u (fst (checkGeofence e lat long s))))]"
  by (simp add: processLocation_eq Let_def emit_def logLocationToHistory_state
      saveLocation_state checkGeofence_state)


lemma processLocation_calls:
  "length (filter isSaveCall (dbTrace (processLocation e socketId u lat long s))) =
     length (filter isSaveCall (dbTrace s)) +
       (if 60000 \<le> clkSave e - (case lastSaveTimestamps s (uid u) of None \<Rightarrow> 0 | Some t \<Rightarrow> t)
        then 1 else 0)"
  by (simp add: processLocation_eq Let_def emit_def logLocationToHistory_state
      saveLocation_calls checkGeofence_state)

lemma processLocation_skip:
  assumes "\<not> 60000 \<le> clkSave e - (case lastSaveTimestamps s (uid u) of None \<Rightarrow> 0 | Some t \<Rightarrow> t)"
  shows "db_locations (processLocation e socketId u lat long s) = db_locations s"
    and "filter isLocationWrite (dbTrace (processLocation e socketId u lat long s)) =
         filter isLocationWrite (dbTrace s)"
  using assms
  by (simp_all add: processLocation_eq Let_def emit_def logLocationToHistory_state
      checkGeofence_state)

lemma processLocation_writes:
  assumes "\<not> failLocationSelect e"
  shows "length (filter isLocationWrite (dbTrace (processLocation e socketId u lat long s))) =
         length (filter isLocationWrite (dbTrace s)) +
           (if 60000 \<le> clkSave e - (case lastSaveTimestamps s (uid u) of None \<Rightarrow> 0 | Some t \<Rightarrow> t)
            then 1 else 0)"
  using assms
  by (simp add: processLocation_eq Let_def emit_def logLocationToHistory_state
      saveLocation_writes checkGeofence_state)

lemma processLocation_lastSave:
  "lastSaveTimestamps (processLocation e socketId u lat long s) =
     (if 60000 \<le> clkSave e - (case lastSaveTimestamps s (uid u) of None \<Rightarrow> 0 | Some t \<Rightarrow> t)
      then (lastSaveTimestamps s)(uid u \<mapsto> clkSave e)
      else lastSaveTimestamps s)"
  by (simp add: processLocation_eq Let_def emit_def logLocationToHistory_state
      saveLocation_state checkGeofence_state)

lemma processLocation_locations:
  assumes "\<not> failLocationSelect e" "\<not> failLocationWrite e"
  shows "db_locations (processLocation e socketId u lat long s) =
     (if 60000 \<le> clkSave e - (case lastSaveTimestamps s (uid u) of None \<Rightarrow> 0 | Some t \<Rightarrow> t)
      then (db_locations s)(uid u \<mapsto> rowOf e (fst (checkGeofence e lat long s)))
      else db_locations s)"
  using assms
  by (simp add: processLocation_eq Let_def emit_def logLocationToHistory_state
      saveLocation_locations checkGeofence_state)

lemma saveLocation_console:
  "set (console_error s) \<subseteq> set (console_error (saveLocation e userId g s))"
  by (auto simp: saveLocation_def issue_def consoleError_def Let_def split: option.splits)

lemma logLocationToHistory_console:
  "set (console_error s) \<subseteq> set (console_error (logLocationToHistory e userId g s))"
  by (auto simp: logLocationToHistory_def issue_def consoleError_def Let_def split: option.splits)

lemma processLocation_save_failure:
  assumes "60000 \<le> clkSave e - (case lastSaveTimestamps s (uid u) of None \<Rightarrow> 0 | Some t \<Rightarrow> t)"
    and "failLocationSelect e \<or> failLocationWrite e"
  shows "''Error saving location:'' \<in> set (console_error (processLocation e socketId u lat long s))"
    and "db_locations (processLocation e socketId u lat long s) = db_locations s"
proof -
  let ?g = "fst (checkGeofence e lat long s)"
  let ?s2 = "emit (ToRoom (roomName (uid u))) (DosenMoved (payloadOf e u ?g))
                 (snd (checkGeofence e lat long s))"
  let ?s3 = "(saveLocation e (uid u) ?g ?s2)
                \<lparr> lastSaveTimestamps := (lastSaveTimestamps s)(uid u \<mapsto> clkSave e) \<rparr>"
  have p: "processLocation e socketId u lat long s =
      emit (ToSocket socketId) (LocationUpdated True (payloadOf e u ?g))
        (logLocationToHistory e (uid u) ?g ?s3)"
    using assms(1) by (simp add: processLocation_eq Let_def)
  have "''Error saving location:'' \<in> set (console_error (saveLocation e (uid u) ?g ?s2))"
    using saveLocation_failure[OF assms(2), of "uid u" ?g ?s2] by simp
  then have "''Error saving location:'' \<in> set (console_error ?s3)" by simp
  then have "''Error saving location:'' \<in> set (console_error (logLocationToHistory e (uid u) ?g ?s3))"
    using logLocationToHistory_console by blast
  then show "''Error saving location:'' \<in> set (console_error (processLocation e socketId u lat long s))"
    by (simp add: p emit_def)
  have "db_locations (saveLocation e (uid u) ?g ?s2) = db_locations ?s2"
    using saveLocation_failure[OF assms(2), of "uid u" ?g ?s2] by simp
  then show "db_locations (processLocation e socketId u lat long s) = db_locations s"
    by (simp add: p emit_def logLocationToHistory_state checkGeofence_state)
qed

section \<open>History: when a row is appended\<close>

lemma latestRow_None: "latestRow rs = None \<longleftrightarrow> rs = []"
  by (cases rs) (auto split: option.splits)

lemma latestRow_Some:
  "latestRow rs = Some l \<Longrightarrow> l \<in> set rs \<and> (\<forall>r \<in> set rs. h_logged_at r \<le> h_logged_at l)"
proof (induction rs arbitrary: l)
  case Nil
  then show ?case by simp
next
  case (Cons r rs)
  show ?case
  proof (cases "latestRow rs")
    case None
    then have "rs = []" by (simp add: latestRow_None)
    with Cons.prems None show ?thesis by simp
  next
    case (Some m)
    then have m: "m \<in> set rs" "\<forall>x \<in> set rs. h_logged_at x \<le> h_logged_at m"
      using Cons.IH by auto
    show ?thesis
    proof (cases "h_logged_at r < h_logged_at m")
      case True
      with Cons.prems Some have "l = m" by simp
      with m True show ?thesis by auto
    next
      case False
      with Cons.prems Some have "l = r" by simp
      with m False show ?thesis by fastforce
    qed
  qed
qed

text \<open>
  C2. For an in-zone sample and a history store that answers, \<open>logLocationToHistory\<close>
  appends exactly one new row if and only if there is no earlier row for this lecturer, day
  of week and date, or the most recent such row names another zone, or it names the same
  zone and at least 3600000 ms lie between its \<open>logged_at\<close> and now. Otherwise the table
  is unchanged; an append leaves the existing rows as they are. The row the query returns
  is a matching row with the greatest \<open>logged_at\<close>.
\<close>

theorem history_append_iff:
  fixes e userId g s
  defines "prior \<equiv> filter (\<lambda>r. h_dosen_id r = userId \<and> h_day_of_week r = histDayOfWeek e \<and>
                                  h_logged_date r = histToday e) (db_location_history s)"
    and "lastLog \<equiv> selectLastHistory (db_location_history s) userId (histDayOfWeek e) (histToday e)"
    and "s' \<equiv> logLocationToHistory e userId g s"
    and "new \<equiv> \<lparr> h_id = newUuid e, h_dosen_id = userId, h_day_of_week = histDayOfWeek e,
                  h_location_name = locationName g, h_latitude = displayLat g,
                  h_longitude = displayLong g, h_logged_date = histToday e,
                  h_logged_at = dbStamp e \<rparr>"
  assumes "isInside g" and "\<not> failHistorySelect e" and "\<not> failHistoryInsert e"
  shows "(db_location_history s' = db_location_history s @ [new] \<or>
          db_location_history s' = db_location_history s) \<and>
         (db_location_history s' = db_location_history s @ [new] \<longleftrightarrow>
            prior = [] \<or>
            (\<exists>l. lastLog = Some l \<and>
                 (h_location_name l \<noteq> locationName g \<or>
                  3600000 \<le> clkHistory e - h_logged_at l))) \<and>
         (lastLog = None \<longleftrightarrow> prior = []) \<and>
         (\<forall>l. lastLog = Some l \<longrightarrow>
              l \<in> set prior \<and> (\<forall>r \<in> set prior. h_logged_at r \<le> h_logged_at l))"
proof -
  have none: "lastLog = None \<longleftrightarrow> prior = []"
    by (simp add: lastLog_def prior_def selectLastHistory_def latestRow_None)
  have some: "\<forall>l. lastLog = Some l \<longrightarrow>
              l \<in> set prior \<and> (\<forall>r \<in> set prior. h_logged_at r \<le> h_logged_at l)"
    unfolding lastLog_def prior_def selectLastHistory_def
    using latestRow_Some by blast
  have h: "db_location_history s' =
     (if (case lastLog of None \<Rightarrow> True
          | Some l \<Rightarrow> h_location_name l \<noteq> locationName g \<or>
                      3600000 \<le> clkHistory e - h_logged_at l)
      then db_location_history s @ [new] else db_location_history s)"
    using assms(5-7)
    by (simp add: s'_def lastLog_def new_def history_of_logLocationToHistory)
  show ?thesis
  proof (cases lastLog)
    case None
    with h none some show ?thesis by simp
  next
    case (Some l)
    with h none some show ?thesis by auto
  qed
qed


theorem history_append_iff_witness:
  "db_location_history (logLocationToHistory env0 ''dosen-1'' indralayaResult state0) =
     [morningRow\<lparr> h_id := ''h-1'' \<rparr>] \<and>
   db_location_history
     (logLocationToHistory (env0\<lparr> clkHistory := 1700000600000 \<rparr>) ''dosen-1'' indralayaResult
        (state0\<lparr> db_location_history := [morningRow] \<rparr>)) = [morningRow] \<and>
   db_location_history
     (logLocationToHistory (env0\<lparr> clkHistory := 1700003660000, dbStamp := 1700003660000 \<rparr>)
        ''dosen-1'' indralayaResult
        (state0\<lparr> db_location_history := [morningRow] \<rparr>)) =
     [morningRow, morningRow\<lparr> h_id := ''h-1'', h_logged_at := 1700003660000 \<rparr>] \<and>
   db_location_history
     (logLocationToHistory (env0\<lparr> clkHistory := 1700000001000, dbStamp := 1700000001000 \<rparr>)
        ''dosen-1'' (indralayaResult\<lparr> locationName := ''UNSRI Palembang'' \<rparr>)
        (state0\<lparr> db_location_history := [morningRow] \<rparr>)) =
     [morningRow, morningRow\<lparr> h_id := ''h-1'', h_location_name := ''UNSRI Palembang'',
                             h_logged_at := 1700000001000 \<rparr>]"
proof -
  have first: "db_location_history (logLocationToHistory env0 ''dosen-1'' indralayaResult state0) =
     [morningRow\<lparr> h_id := ''h-1'' \<rparr>]"
    using history_append_iff[of indralayaResult env0 "''dosen-1''" state0]
    by (auto simp: env0_def state0_def indralayaResult_def morningRow_def selectLastHistory_def)
  have ten_minutes: "db_location_history
     (logLocationToHistory (env0\<lparr> clkHistory := 1700000600000 \<rparr>) ''dosen-1'' indralayaResult
        (state0\<lparr> db_location_history := [morningRow] \<rparr>)) = [morningRow]"
    using history_append_iff[of indralayaResult "env0\<lparr> clkHistory := 1700000600000 \<rparr>"
        "''dosen-1''" "state0\<lparr> db_location_history := [morningRow] \<rparr>"]
    by (auto simp: env0_def state0_def indralayaResult_def morningRow_def selectLastHistory_def)
  have sixty_one_minutes: "db_location_history
     (logLocationToHistory (env0\<lparr> clkHistory := 1700003660000, dbStamp := 1700003660000 \<rparr>)
        ''dosen-1'' indralayaResult
        (state0\<lparr> db_location_history := [morningRow] \<rparr>)) =
     [morningRow, morningRow\<lparr> h_id := ''h-1'', h_logged_at := 1700003660000 \<rparr>]"
    using history_append_iff[of indralayaResult
        "env0\<lparr> clkHistory := 1700003660000, dbStamp := 1700003660000 \<rparr>" "''dosen-1''"
        "state0\<lparr> db_location_history := [morningRow] \<rparr>"]
    by (auto simp: env0_def state0_def indralayaResult_def morningRow_def selectLastHistory_def)
  have zone_change: "db_location_history
     (logLocationToHistory (env0\<lparr> clkHistory := 1700000001000, dbStamp := 1700000001000 \<rparr>)
        ''dosen-1'' (indralayaResult\<lparr> locationName := ''UNSRI Palembang'' \<rparr>)
        (state0\<lparr> db_location_history := [morningRow] \<rparr>)) =
     [morningRow, morningRow\<lparr> h_id := ''h-1'', h_location_name := ''UNSRI Palembang'',
                             h_logged_at := 1700000001000 \<rparr>]"
    using history_append_iff[of "indralayaResult\<lparr> locationName := ''UNSRI Palembang'' \<rparr>"
        "env0\<lparr> clkHistory := 1700000001000, dbStamp := 1700000001000 \<rparr>" "''dosen-1''"
        "state0\<lparr> db_location_history := [morningRow] \<rparr>"]
    by (auto simp: env0_def state0_def indralayaResult_def morningRow_def selectLastHistory_def)
  from first ten_minutes sixty_one_minutes zone_change show ?thesis by blast
qed

section \<open>Persistence: the 60 second throttle\<close>

text \<open>
  C3 (as amended). For a valid sample of a lecturer, \<open>saveLocation\<close> is called if and only if at least
  60000 ms lie between the time stored as the lecturer's last save and now (no stored time
  counts as 0, so with no earlier save every clock past the first minute of the epoch
  qualifies); the stored time moves to now exactly when it is called, also when the store
  rejects the write, and when the store answers, the call writes the lecturer's
  \<open>locations\<close> row. Otherwise the row and the stored
  time stay. Hence two samples of a lecturer without an earlier save, 10 s apart, save
  once, and 61 s apart, twice.
\<close>

theorem persistence_throttle:
  fixes e e' :: env and u :: user and d d' :: jsobject and s :: state
    and socketId socketId' :: string
  defines "s' \<equiv> handleLocationUpdate e socketId u (Some d) s"
    and "s'' \<equiv> handleLocationUpdate e' socketId' u (Some d')
                  (handleLocationUpdate e socketId u (Some d) s)"
    and "lastSave \<equiv> (case lastSaveTimestamps s (uid u) of None \<Rightarrow> 0 | Some t \<Rightarrow> t)"
    and "saves \<equiv> (\<lambda>t. length (filter isSaveCall (dbTrace t)))"
    and "writes \<equiv> (\<lambda>t. length (filter isLocationWrite (dbTrace t)))"
  assumes "urole u = Dosen"
    and "nullish (d ''lat'') (d ''latitude'') = JNum la"
    and "nullish (d ''long'') (d ''longitude'') = JNum lo"
    and "nullish (d' ''lat'') (d' ''latitude'') = JNum la'"
    and "nullish (d' ''long'') (d' ''longitude'') = JNum lo'"
  shows "(60000 \<le> clkSave e - lastSave \<longrightarrow>
            saves s' = saves s + 1 \<and>
            lastSaveTimestamps s' = (lastSaveTimestamps s)(uid u \<mapsto> clkSave e) \<and>
            (\<not> failLocationSelect e \<and> \<not> failLocationWrite e \<longrightarrow>
               writes s' = writes s + 1 \<and>
               db_locations s' =
                 (db_locations s)(uid u \<mapsto> rowOf e (fst (checkGeofence e la lo s))))) \<and>
         (\<not> 60000 \<le> clkSave e - lastSave \<longrightarrow>
            saves s' = saves s \<and> writes s' = writes s \<and>
            db_locations s' = db_locations s \<and>
            lastSaveTimestamps s' = lastSaveTimestamps s) \<and>
         (lastSaveTimestamps s (uid u) = None \<and> 60000 \<le> clkSave e \<longrightarrow>
            saves s' = saves s + 1) \<and>
         (lastSaveTimestamps s (uid u) = None \<and> 60000 \<le> clkSave e \<and>
          clkSave e' = clkSave e + 10000 \<longrightarrow>
            saves s'' = saves s + 1 \<and>
            (\<not> failLocationSelect e \<and> \<not> failLocationWrite e \<longrightarrow> writes s'' = writes s + 1)) \<and>
         (lastSaveTimestamps s (uid u) = None \<and> 60000 \<le> clkSave e \<and>
          clkSave e' = clkSave e + 61000 \<longrightarrow>
            saves s'' = saves s + 2 \<and>
            (\<not> failLocationSelect e \<and> \<not> failLocationWrite e \<and>
             \<not> failLocationSelect e' \<and> \<not> failLocationWrite e' \<longrightarrow>
               writes s'' = writes s + 2))"
proof -
  let ?elapsed = "60000 \<le> clkSave e - lastSave"
  let ?last' = "case lastSaveTimestamps s' (uid u) of None \<Rightarrow> 0 | Some t \<Rightarrow> t"
  have 1: "s' = processLocation e socketId u la lo s"
    unfolding s'_def using assms(6-8) by (rule handleLocationUpdate_valid)
  have 2: "s'' = processLocation e' socketId' u la' lo' s'"
    unfolding s''_def s'_def using assms(6,9,10) by (rule handleLocationUpdate_valid)
  have c1: "saves s' = saves s + (if ?elapsed then 1 else 0)"
    unfolding 1 saves_def lastSave_def by (rule processLocation_calls)
  have c2: "saves s'' = saves s' + (if 60000 \<le> clkSave e' - ?last' then 1 else 0)"
    unfolding 2 saves_def by (rule processLocation_calls)
  have l1: "lastSaveTimestamps s' =
     (if ?elapsed then (lastSaveTimestamps s)(uid u \<mapsto> clkSave e) else lastSaveTimestamps s)"
    unfolding 1 lastSave_def by (rule processLocation_lastSave)
  have w1: "\<not> failLocationSelect e \<Longrightarrow>
      writes s' = writes s + (if ?elapsed then 1 else 0)"
    unfolding 1 writes_def lastSave_def by (rule processLocation_writes)
  have w2: "\<not> failLocationSelect e' \<Longrightarrow>
      writes s'' = writes s' + (if 60000 \<le> clkSave e' - ?last' then 1 else 0)"
    unfolding 2 writes_def by (rule processLocation_writes)
  have d1: "\<not> failLocationSelect e \<Longrightarrow> \<not> failLocationWrite e \<Longrightarrow>
      db_locations s' =
        (if ?elapsed then (db_locations s)(uid u \<mapsto> rowOf e (fst (checkGeofence e la lo s)))
         else db_locations s)"
    unfolding 1 lastSave_def by (rule processLocation_locations)
  have k1: "\<not> ?elapsed \<Longrightarrow> db_locations s' = db_locations s \<and> writes s' = writes s"
    unfolding 1 writes_def lastSave_def using processLocation_skip[of e s u socketId la lo]
    by simp
  have k2: "\<not> 60000 \<le> clkSave e' - ?last' \<Longrightarrow> writes s'' = writes s'"
    unfolding 2 writes_def using processLocation_skip[of e' s' u socketId' la' lo']
    by simp
  have fresh: "lastSaveTimestamps s (uid u) = None \<Longrightarrow> lastSave = 0"
    by (simp add: lastSave_def)
  have A: "?elapsed \<longrightarrow>
            saves s' = saves s + 1 \<and>
            lastSaveTimestamps s' = (lastSaveTimestamps s)(uid u \<mapsto> clkSave e) \<and>
            (\<not> failLocationSelect e \<and> \<not> failLocationWrite e \<longrightarrow>
               writes s' = writes s + 1 \<and>
               db_locations s' =
                 (db_locations s)(uid u \<mapsto> rowOf e (fst (checkGeofence e la lo s))))"
    using c1 l1 w1 d1 by simp
  have B: "\<not> ?elapsed \<longrightarrow>
            saves s' = saves s \<and> writes s' = writes s \<and>
            db_locations s' = db_locations s \<and>
            lastSaveTimestamps s' = lastSaveTimestamps s"
    using c1 l1 k1 by simp
  have C: "lastSaveTimestamps s (uid u) = None \<and> 60000 \<le> clkSave e \<longrightarrow>
            saves s' = saves s + 1"
    using c1 fresh by simp
  have D: "lastSaveTimestamps s (uid u) = None \<and> 60000 \<le> clkSave e \<and>
          clkSave e' = clkSave e + 10000 \<longrightarrow>
            saves s'' = saves s + 1 \<and>
            (\<not> failLocationSelect e \<and> \<not> failLocationWrite e \<longrightarrow> writes s'' = writes s + 1)"
    using c1 c2 l1 w1 k2 fresh by auto
  have E: "lastSaveTimestamps s (uid u) = None \<and> 60000 \<le> clkSave e \<and>
          clkSave e' = clkSave e + 61000 \<longrightarrow>
            saves s'' = saves s + 2 \<and>
            (\<not> failLocationSelect e \<and> \<not> failLocationWrite e \<and>
             \<not> failLocationSelect e' \<and> \<not> failLocationWrite e' \<longrightarrow>
               writes s'' = writes s + 2)"
    using c1 c2 l1 w1 w2 fresh by auto
  from A B C D E show ?thesis by blast
qed

theorem persistence_throttle_witness:
  "length (filter isLocationWrite (dbTrace
     (handleLocationUpdate (env0\<lparr> clkSave := 1700000010000 \<rparr>) ''sock-1'' dosen1
        (Some campusPayload)
        (handleLocationUpdate env0 ''sock-1'' dosen1 (Some campusPayload) state0)))) = 1 \<and>
   length (filter isLocationWrite (dbTrace
     (handleLocationUpdate (env0\<lparr> clkSave := 1700000061000 \<rparr>) ''sock-1'' dosen1
        (Some campusPayload)
        (handleLocationUpdate env0 ''sock-1'' dosen1 (Some campusPayload) state0)))) = 2"
  using persistence_throttle[where e = env0 and e' = "env0\<lparr> clkSave := 1700000010000 \<rparr>"
      and u = dosen1 and d = campusPayload and d' = campusPayload and s = state0
      and la = "- 3.219741" and lo = "104.651220" and la' = "- 3.219741" and lo' = "104.651220"
      and socketId = "''sock-1''" and socketId' = "''sock-1''"]
    persistence_throttle[where e = env0 and e' = "env0\<lparr> clkSave := 1700000061000 \<rparr>"
      and u = dosen1 and d = campusPayload and d' = campusPayload and s = state0
      and la = "- 3.219741" and lo = "104.651220" and la' = "- 3.219741" and lo' = "104.651220"
      and socketId = "''sock-1''" and socketId' = "''sock-1''"]
  by (simp add: env0_def state0_def dosen1_def campusPayload_def)

text \<open>
  A write that the store rejects still moves the stored time: nothing is persisted, and a
  sample 59.999 s later, with the store answering, is not saved either.
\<close>

theorem persistence_failed_save_counterexample:
  "db_locations
     (handleLocationUpdate (env0\<lparr> failLocationWrite := True \<rparr>) ''sock-1'' dosen1
        (Some campusPayload) state0) ''dosen-1'' = None \<and>
   lastSaveTimestamps
     (handleLocationUpdate (env0\<lparr> failLocationWrite := True \<rparr>) ''sock-1'' dosen1
        (Some campusPayload) state0) ''dosen-1'' = Some 1700000000000 \<and>
   db_locations
     (handleLocationUpdate (env0\<lparr> clkSave := 1700000059999 \<rparr>) ''sock-1'' dosen1
        (Some campusPayload)
        (handleLocationUpdate (env0\<lparr> failLocationWrite := True \<rparr>) ''sock-1'' dosen1
           (Some campusPayload) state0)) ''dosen-1'' = None"
proof -
  define e1 where "e1 = env0\<lparr> failLocationWrite := True \<rparr>"
  define e2 where "e2 = env0\<lparr> clkSave := 1700000059999 \<rparr>"
  define s1 where "s1 = handleLocationUpdate e1 ''sock-1'' dosen1 (Some campusPayload) state0"
  define s2 where "s2 = handleLocationUpdate e2 ''sock-1'' dosen1 (Some campusPayload) s1"
  have u: "urole dosen1 = Dosen" "uid dosen1 = ''dosen-1''" by (simp_all add: dosen1_def)
  have la: "nullish (campusPayload ''lat'') (campusPayload ''latitude'') = JNum (- 3.219741)"
    and lo: "nullish (campusPayload ''long'') (campusPayload ''longitude'') = JNum 104.651220"
    by (simp_all add: campusPayload_def)
  have p1: "s1 = processLocation e1 ''sock-1'' dosen1 (- 3.219741) 104.651220 state0"
    unfolding s1_def using u(1) la lo by (rule handleLocationUpdate_valid)
  have p2: "s2 = processLocation e2 ''sock-1'' dosen1 (- 3.219741) 104.651220 s1"
    unfolding s2_def using u(1) la lo by (rule handleLocationUpdate_valid)
  have fresh: "lastSaveTimestamps state0 (uid dosen1) = None" "db_locations state0 = Map.empty"
    by (simp_all add: state0_def)
  have c1: "clkSave e1 = 1700000000000" "failLocationWrite e1"
    by (simp_all add: e1_def env0_def)
  have c2: "clkSave e2 = 1700000059999" by (simp add: e2_def)
  have due: "60000 \<le> clkSave e1 -
      (case lastSaveTimestamps state0 (uid dosen1) of None \<Rightarrow> 0 | Some t \<Rightarrow> t)"
    by (simp add: fresh c1)
  have d1: "db_locations s1 = db_locations state0"
    unfolding p1 using due c1(2) by (intro processLocation_save_failure) simp_all
  have t1: "lastSaveTimestamps s1 = (lastSaveTimestamps state0)(uid dosen1 \<mapsto> clkSave e1)"
    unfolding p1 using due by (simp add: processLocation_lastSave)
  have early: "\<not> 60000 \<le> clkSave e2 -
      (case lastSaveTimestamps s1 (uid dosen1) of None \<Rightarrow> 0 | Some t \<Rightarrow> t)"
    by (simp add: t1 c1 c2)
  have d2: "db_locations s2 = db_locations s1"
    unfolding p2 using early by (rule processLocation_skip)
  from d1 d2 t1 show ?thesis
    unfolding s2_def s1_def e1_def e2_def
    by (simp add: fresh u c1[unfolded e1_def])
qed

section \<open>Samples outside every zone\<close>

lemma loop_outside:
  "\<not> isInside (checkGeofence_loop gs lat long) \<Longrightarrow>
   checkGeofence_loop gs lat long = maskedResult"
  by (induction gs) (simp_all add: Let_def split: if_splits)

lemma checkGeofence_outside:
  "\<not> isInside (fst (checkGeofence e lat long s)) \<Longrightarrow>
   fst (checkGeofence e lat long s) = maskedResult"
  by (auto simp: checkGeofence_def Let_def loop_outside split: if_splits)

lemma processLocation_history_outside:
  assumes "\<not> isInside (fst (checkGeofence e lat long s))"
  shows "db_location_history (processLocation e socketId u lat long s) = db_location_history s"
    and "filter isHistoryOp (dbTrace (processLocation e socketId u lat long s)) =
         filter isHistoryOp (dbTrace s)"
  using assms
  by (simp_all add: processLocation_eq Let_def emit_def logLocationToHistory_outside
      saveLocation_state checkGeofence_state)

text \<open>
  C4. When the classification of a valid sample is not inside a zone, the history table is
  unchanged and no history statement is issued at all; the masked payload is still
  broadcast to the lecturer's room and acknowledged to the sender, and the masked location
  is still saved under the 60 s rule.
\<close>

theorem outside_zone_not_historized:
  fixes e :: env and u :: user and d :: jsobject and s :: state and socketId :: string
    and la lo :: real
  defines "s' \<equiv> handleLocationUpdate e socketId u (Some d) s"
    and "lastSave \<equiv> (case lastSaveTimestamps s (uid u) of None \<Rightarrow> 0 | Some t \<Rightarrow> t)"
    and "masked \<equiv> \<lparr> ld_dosen_id = uid u, ld_name = uname u, ld_latitude = - 6.2088,
                     ld_longitude = 106.8456, ld_position_name = ''Di Luar'',
                     ld_is_inside = False, ld_last_updated = clkBroadcast e \<rparr>"
  assumes "urole u = Dosen"
    and "nullish (d ''lat'') (d ''latitude'') = JNum la"
    and "nullish (d ''long'') (d ''longitude'') = JNum lo"
    and "\<not> isInside (fst (checkGeofence e la lo s))"
  shows "db_location_history s' = db_location_history s \<and>
         filter isHistoryOp (dbTrace s') = filter isHistoryOp (dbTrace s) \<and>
         outbox s' = outbox s @
           [(ToRoom (roomName (uid u)), DosenMoved masked),
            (ToSocket socketId, LocationUpdated True masked)] \<and>
         (60000 \<le> clkSave e - lastSave \<and> \<not> failLocationSelect e \<and> \<not> failLocationWrite e \<longrightarrow>
            db_locations s' =
              (db_locations s)(uid u \<mapsto>
                 \<lparr> loc_latitude = - 6.2088, loc_longitude = 106.8456,
                   loc_position_name = ''Di Luar'', loc_last_updated = dbStamp e \<rparr>)) \<and>
         (\<not> 60000 \<le> clkSave e - lastSave \<longrightarrow> db_locations s' = db_locations s)"
proof -
  have 1: "s' = processLocation e socketId u la lo s"
    unfolding s'_def using assms(4-6) by (rule handleLocationUpdate_valid)
  have g: "fst (checkGeofence e la lo s) = maskedResult"
    using assms(7) by (rule checkGeofence_outside)
  have p: "payloadOf e u maskedResult = masked"
    by (simp add: payloadOf_def maskedResult_def MASKED_LOCATION_def masked_def)
  have r: "rowOf e maskedResult =
      \<lparr> loc_latitude = - 6.2088, loc_longitude = 106.8456,
        loc_position_name = ''Di Luar'', loc_last_updated = dbStamp e \<rparr>"
    by (simp add: rowOf_def maskedResult_def MASKED_LOCATION_def)
  have h: "db_location_history s' = db_location_history s"
    "filter isHistoryOp (dbTrace s') = filter isHistoryOp (dbTrace s)"
    unfolding 1 using assms(7) by (rule processLocation_history_outside)+
  have ob: "outbox s' = outbox s @
           [(ToRoom (roomName (uid u)), DosenMoved masked),
            (ToSocket socketId, LocationUpdated True masked)]"
    unfolding 1 by (simp add: processLocation_outbox g p)
  have save: "60000 \<le> clkSave e - lastSave \<and> \<not> failLocationSelect e \<and> \<not> failLocationWrite e \<longrightarrow>
            db_locations s' =
              (db_locations s)(uid u \<mapsto>
                 \<lparr> loc_latitude = - 6.2088, loc_longitude = 106.8456,
                   loc_position_name = ''Di Luar'', loc_last_updated = dbStamp e \<rparr>)"
    unfolding 1 lastSave_def by (simp add: processLocation_locations g r)
  have skip: "\<not> 60000 \<le> clkSave e - lastSave \<longrightarrow> db_locations s' = db_locations s"
    unfolding 1 lastSave_def
    by (simp add: processLocation_eq Let_def emit_def logLocationToHistory_state
        checkGeofence_state)
  from h ob save skip show ?thesis by simp
qed

lemma jakarta_outside: "\<not> isInside (fst (checkGeofence env0 (- 6.2088) 106.8456 state0))"
proof -
  have "checkGeofence_loop seedGeofences (- 6.2088) 106.8456 = maskedResult"
    using masked_outside_seed by (intro loop_no_match) (simp add: MASKED_LOCATION_def)
  then show ?thesis
    by (simp add: checkGeofence_def issue_def Let_def env0_def state0_def maskedResult_def)
qed

theorem outside_zone_not_historized_witness:
  "db_location_history (handleLocationUpdate env0 ''sock-1'' dosen1 (Some jakartaPayload) state0) = [] \<and>
   filter isHistoryOp
     (dbTrace (handleLocationUpdate env0 ''sock-1'' dosen1 (Some jakartaPayload) state0)) = [] \<and>
   db_locations (handleLocationUpdate env0 ''sock-1'' dosen1 (Some jakartaPayload) state0)
     ''dosen-1'' =
     Some \<lparr> loc_latitude = - 6.2088, loc_longitude = 106.8456,
            loc_position_name = ''Di Luar'', loc_last_updated = 1700000000000 \<rparr> \<and>
   map fst (outbox (handleLocationUpdate env0 ''sock-1'' dosen1 (Some jakartaPayload) state0)) =
     [ToRoom ''room:dosen_dosen-1'', ToSocket ''sock-1'']"
  using outside_zone_not_historized[where e = env0 and u = dosen1 and d = jakartaPayload
      and s = state0 and la = "- 6.2088" and lo = "106.8456" and socketId = "''sock-1''"]
    jakarta_outside
  by (simp add: env0_def state0_def dosen1_def jakartaPayload_def roomName_def)


section \<open>Store failures are logged and swallowed\<close>

lemma logLocationToHistory_failure:
  assumes "isInside g"
    and "failHistorySelect e \<or>
         (failHistoryInsert e \<and>
          (case selectLastHistory (db_location_history s) userId (histDayOfWeek e) (histToday e) of
             None \<Rightarrow> True
           | Some l \<Rightarrow> h_location_name l \<noteq> locationName g \<or>
                       3600000 \<le> clkHistory e - h_logged_at l))"
  shows "console_error (logLocationToHistory e userId g s) =
           console_error s @ [''Error logging location to history:'']"
  using assms
  by (auto simp: logLocationToHistory_def issue_def consoleError_def Let_def
      LOCATION_LOG_THROTTLE_MS_def split: option.splits)

lemma processLocation_history:
  "db_location_history (processLocation e socketId u lat long s) =
     db_location_history (logLocationToHistory e (uid u) (fst (checkGeofence e lat long s)) s)"
  by (simp add: processLocation_eq Let_def emit_def history_of_logLocationToHistory
      saveLocation_state checkGeofence_state)

lemma processLocation_history_failure:
  assumes "isInside (fst (checkGeofence e lat long s))"
    and "failHistorySelect e \<or>
         (failHistoryInsert e \<and>
          (case selectLastHistory (db_location_history s) (uid u) (histDayOfWeek e) (histToday e) of
             None \<Rightarrow> True
           | Some l \<Rightarrow> h_location_name l \<noteq> locationName (fst (checkGeofence e lat long s)) \<or>
                       3600000 \<le> clkHistory e - h_logged_at l))"
  shows "''Error logging location to history:'' \<in>
           set (console_error (processLocation e socketId u lat long s))"
proof -
  let ?g = "fst (checkGeofence e lat long s)"
  obtain s3 where p: "processLocation e socketId u lat long s =
      emit (ToSocket socketId) (LocationUpdated True (payloadOf e u ?g))
        (logLocationToHistory e (uid u) ?g s3)"
    and h: "db_location_history s3 = db_location_history s"
    by (simp add: processLocation_eq Let_def emit_def saveLocation_state checkGeofence_state)
  have "console_error (logLocationToHistory e (uid u) ?g s3) =
           console_error s3 @ [''Error logging location to history:'']"
    using assms by (intro logLocationToHistory_failure) (simp_all add: h)
  then show ?thesis by (simp add: p emit_def)
qed

text \<open>
  C9. Whatever the location store and the history store do while a valid sample is
  handled, the events emitted are the \<open>dosen_moved\<close> broadcast followed by the
  \<open>location_updated\<close> acknowledgement with \<open>success = true\<close>, after what had been emitted
  before; a rejected statement is written to the error log and leaves its table unchanged.
\<close>

theorem store_failures_swallowed:
  fixes e :: env and u :: user and d :: jsobject and s :: state and socketId :: string
    and la lo :: real
  defines "s' \<equiv> handleLocationUpdate e socketId u (Some d) s"
    and "g \<equiv> fst (checkGeofence e la lo s)"
    and "lastSave \<equiv> (case lastSaveTimestamps s (uid u) of None \<Rightarrow> 0 | Some t \<Rightarrow> t)"
  assumes "urole u = Dosen"
    and "nullish (d ''lat'') (d ''latitude'') = JNum la"
    and "nullish (d ''long'') (d ''longitude'') = JNum lo"
  shows "outbox s' = outbox s @
           [(ToRoom (roomName (uid u)), DosenMoved (payloadOf e u g)),
            (ToSocket socketId, LocationUpdated True (payloadOf e u g))] \<and>
         (60000 \<le> clkSave e - lastSave \<and> (failLocationSelect e \<or> failLocationWrite e) \<longrightarrow>
            ''Error saving location:'' \<in> set (console_error s') \<and>
            db_locations s' = db_locations s) \<and>
         (isInside g \<and> (failHistorySelect e \<or> failHistoryInsert e) \<longrightarrow>
            db_location_history s' = db_location_history s) \<and>
         (isInside g \<and>
          (failHistorySelect e \<or>
           (failHistoryInsert e \<and>
            (case selectLastHistory (db_location_history s) (uid u)
                    (histDayOfWeek e) (histToday e) of
               None \<Rightarrow> True
             | Some l \<Rightarrow> h_location_name l \<noteq> locationName g \<or>
                         3600000 \<le> clkHistory e - h_logged_at l))) \<longrightarrow>
            ''Error logging location to history:'' \<in> set (console_error s'))"
proof -
  have 1: "s' = processLocation e socketId u la lo s"
    unfolding s'_def using assms(4-6) by (rule handleLocationUpdate_valid)
  have a: "outbox s' = outbox s @
           [(ToRoom (roomName (uid u)), DosenMoved (payloadOf e u g)),
            (ToSocket socketId, LocationUpdated True (payloadOf e u g))]"
    unfolding 1 g_def by (rule processLocation_outbox)
  have b: "60000 \<le> clkSave e - lastSave \<and> (failLocationSelect e \<or> failLocationWrite e) \<longrightarrow>
            ''Error saving location:'' \<in> set (console_error s') \<and>
            db_locations s' = db_locations s"
    unfolding 1 lastSave_def using processLocation_save_failure by blast
  have c: "isInside g \<and> (failHistorySelect e \<or> failHistoryInsert e) \<longrightarrow>
            db_location_history s' = db_location_history s"
    unfolding 1 g_def by (auto simp: processLocation_history history_of_logLocationToHistory)
  have d: "isInside g \<and>
          (failHistorySelect e \<or>
           (failHistoryInsert e \<and>
            (case selectLastHistory (db_location_history s) (uid u)
                    (histDayOfWeek e) (histToday e) of
               None \<Rightarrow> True
             | Some l \<Rightarrow> h_location_name l \<noteq> locationName g \<or>
                         3600000 \<le> clkHistory e - h_logged_at l))) \<longrightarrow>
            ''Error logging location to history:'' \<in> set (console_error s')"
    unfolding 1 g_def using processLocation_history_failure by blast
  from a b c d show ?thesis by blast
qed


lemma campus_inside:
  "fst (checkGeofence e (- 3.219741) 104.651220 state0) =
     (if failGeofences e then maskedResult
      else \<lparr> isInside = True, locationName = ''UNSRI Indralaya'',
             displayLat = - 3.219741, displayLong = 104.651220 \<rparr>)"
  by (simp add: checkGeofence_def issue_def Let_def state0_def seedGeofences_def
      haversine_same_point radiusNumber_def)

theorem store_failures_swallowed_witness:
  "outbox (handleLocationUpdate
             (env0\<lparr> failLocationWrite := True, failHistoryInsert := True \<rparr>)
             ''sock-1'' dosen1 (Some campusPayload) state0) =
     [(ToRoom ''room:dosen_dosen-1'',
       DosenMoved \<lparr> ld_dosen_id = ''dosen-1'', ld_name = ''Dr. Budi Santoso'',
                    ld_latitude = - 3.219741, ld_longitude = 104.651220,
                    ld_position_name = ''UNSRI Indralaya'', ld_is_inside = True,
                    ld_last_updated = 1700000000000 \<rparr>),
      (ToSocket ''sock-1'',
       LocationUpdated True
         \<lparr> ld_dosen_id = ''dosen-1'', ld_name = ''Dr. Budi Santoso'',
           ld_latitude = - 3.219741, ld_longitude = 104.651220,
           ld_position_name = ''UNSRI Indralaya'', ld_is_inside = True,
           ld_last_updated = 1700000000000 \<rparr>)] \<and>
   ''Error saving location:'' \<in> set (console_error (handleLocationUpdate
             (env0\<lparr> failLocationWrite := True, failHistoryInsert := True \<rparr>)
             ''sock-1'' dosen1 (Some campusPayload) state0)) \<and>
   ''Error logging location to history:'' \<in> set (console_error (handleLocationUpdate
             (env0\<lparr> failLocationWrite := True, failHistoryInsert := True \<rparr>)
             ''sock-1'' dosen1 (Some campusPayload) state0))"
proof -
  define e where "e = env0\<lparr> failLocationWrite := True, failHistoryInsert := True \<rparr>"
  have flags: "failLocationWrite e" "failHistoryInsert e" "\<not> failGeofences e"
    "clkSave e = 1700000000000" "clkBroadcast e = 1700000000000"
    by (simp_all add: e_def env0_def)
  have g: "fst (checkGeofence e (- 3.219741) 104.651220 state0) =
      \<lparr> isInside = True, locationName = ''UNSRI Indralaya'',
        displayLat = - 3.219741, displayLong = 104.651220 \<rparr>"
    using flags(3) campus_inside[of e] by simp
  have fresh: "lastSaveTimestamps state0 (uid dosen1) = None"
    "selectLastHistory (db_location_history state0) (uid dosen1) (histDayOfWeek e) (histToday e) = None"
    by (simp_all add: state0_def selectLastHistory_def)
  have u: "urole dosen1 = Dosen" "uid dosen1 = ''dosen-1''" "uname dosen1 = ''Dr. Budi Santoso''"
    by (simp_all add: dosen1_def)
  have la: "nullish (campusPayload ''lat'') (campusPayload ''latitude'') = JNum (- 3.219741)"
    and lo: "nullish (campusPayload ''long'') (campusPayload ''longitude'') = JNum 104.651220"
    by (simp_all add: campusPayload_def)
  have ob: "outbox state0 = []" by (simp add: state0_def)
  show ?thesis
    using store_failures_swallowed[OF u(1) la lo, of e "''sock-1''" state0]
    unfolding g fresh e_def[symmetric]
    by (simp add: flags u ob payloadOf_def roomName_def)
qed

section \<open>Presence\<close>

lemma users_connect:
  "urole u \<noteq> Admin \<Longrightarrow> onlineUsersMap s (uid u) = entryOf live \<Longrightarrow>
   onlineUsersMap (onConnection socketId u s) (uid u) = entryOf (finsert socketId live)"
  by (cases "urole u")
     (auto simp: onConnection_def handleDosenConnection_def handleMahasiswaConnection_def
        socketJoin_def emit_def getOrNewSet_def entryOf_def Let_def split: if_splits)

lemma users_disconnect:
  "onlineUsersMap s (uid u) = entryOf live \<Longrightarrow>
   onlineUsersMap (handleDisconnect socketId u s) (uid u) = entryOf (live |-| {|socketId|})"
  by (auto simp: handleDisconnect_def emit_def entryOf_def Let_def
      split: if_splits option.splits)

lemma dosen_connect:
  "urole u = Dosen \<Longrightarrow> onlineDosenMap s (uid u) = entryOf live \<Longrightarrow>
   onlineDosenMap (onConnection socketId u s) (uid u) = entryOf (finsert socketId live)"
  by (auto simp: onConnection_def handleDosenConnection_def
        socketJoin_def emit_def getOrNewSet_def entryOf_def Let_def split: if_splits)

lemma dosen_disconnect:
  "urole u = Dosen \<Longrightarrow> onlineDosenMap s (uid u) = entryOf live \<Longrightarrow>
   onlineDosenMap (handleDisconnect socketId u s) (uid u) = entryOf (live |-| {|socketId|})"
  by (auto simp: handleDisconnect_def emit_def entryOf_def Let_def
      split: if_splits option.splits)

lemma run_users:
  "urole u \<noteq> Admin \<Longrightarrow> onlineUsersMap s (uid u) = entryOf live \<Longrightarrow>
   onlineUsersMap (run u s es) (uid u) = entryOf (liveAfter live es)"
proof (induction es arbitrary: s live)
  case Nil
  then show ?case by (simp add: run_def)
next
  case (Cons ev es)
  show ?case
  proof (cases ev)
    case (Connect socketId)
    have "onlineUsersMap (run u (onConnection socketId u s) es) (uid u) =
          entryOf (liveAfter (finsert socketId live) es)"
      using Cons.prems by (intro Cons.IH users_connect)
    with Connect show ?thesis by (simp add: run_def)
  next
    case (Disconnect socketId)
    have "onlineUsersMap (run u (handleDisconnect socketId u s) es) (uid u) =
          entryOf (liveAfter (live |-| {|socketId|}) es)"
      using Cons.prems by (intro Cons.IH users_disconnect)
    with Disconnect show ?thesis by (simp add: run_def)
  qed
qed

lemma run_dosen:
  "urole u = Dosen \<Longrightarrow> onlineDosenMap s (uid u) = entryOf live \<Longrightarrow>
   onlineDosenMap (run u s es) (uid u) = entryOf (liveAfter live es)"
proof (induction es arbitrary: s live)
  case Nil
  then show ?case by (simp add: run_def)
next
  case (Cons ev es)
  show ?case
  proof (cases ev)
    case (Connect socketId)
    have "onlineDosenMap (run u (onConnection socketId u s) es) (uid u) =
          entryOf (liveAfter (finsert socketId live) es)"
      using Cons.prems by (intro Cons.IH dosen_connect)
    with Connect show ?thesis by (simp add: run_def)
  next
    case (Disconnect socketId)
    have "onlineDosenMap (run u (handleDisconnect socketId u s) es) (uid u) =
          entryOf (liveAfter (live |-| {|socketId|}) es)"
      using Cons.prems by (intro Cons.IH dosen_disconnect)
    with Disconnect show ?thesis by (simp add: run_def)
  qed
qed

lemma interleaving_count:
  "interleaving live es \<Longrightarrow>
   fcard (liveAfter live es) + disconnects es = fcard live + connects es"
proof (induction es arbitrary: live)
  case Nil
  then show ?case by (simp add: connects_def disconnects_def)
next
  case (Cons ev es)
  show ?case
  proof (cases ev)
    case (Connect socketId)
    with Cons.prems have fresh: "socketId |\<notin>| live" and rest: "interleaving (finsert socketId live) es"
      by simp_all
    from Cons.IH[OF rest] fresh Connect show ?thesis
      by (simp add: connects_def disconnects_def fcard_finsert_disjoint)
  next
    case (Disconnect socketId)
    with Cons.prems have mem: "socketId |\<in>| live" and rest: "interleaving (live |-| {|socketId|}) es"
      by simp_all
    have "fcard live = Suc (fcard (live |-| {|socketId|}))"
      using mem fcard_Suc_fminus1[of socketId live] by (simp only:)
    with Cons.IH[OF rest] Disconnect show ?thesis
      by (simp add: connects_def disconnects_def)
  qed
qed

lemma online_entry:
  "(case entryOf live of None \<Rightarrow> False | Some sockets \<Rightarrow> fcard sockets > 0) \<longleftrightarrow> live \<noteq> {||}"
  by (auto simp: entryOf_def)


lemma count_users_connect:
  "urole u \<noteq> Admin \<Longrightarrow> socketId |\<notin>| live \<Longrightarrow>
   onlineUsersCount s (uid u) = countEntryOf live \<Longrightarrow>
   onlineUsersCount (onConnection_count u s) (uid u) = countEntryOf (finsert socketId live)"
  by (cases "urole u")
     (auto simp: onConnection_count_def handleDosenConnection_count_def
        handleMahasiswaConnection_count_def getOrZero_def countEntryOf_def Let_def
        fcard_finsert_disjoint)

lemma count_dosen_connect:
  "urole u = Dosen \<Longrightarrow> socketId |\<notin>| live \<Longrightarrow>
   onlineDosenCount s (uid u) = countEntryOf live \<Longrightarrow>
   onlineDosenCount (onConnection_count u s) (uid u) = countEntryOf (finsert socketId live)"
  by (auto simp: onConnection_count_def handleDosenConnection_count_def
        getOrZero_def countEntryOf_def Let_def fcard_finsert_disjoint)

lemma fcard_remove_member:
  "socketId |\<in>| live \<Longrightarrow> int (fcard live) - 1 = int (fcard (live |-| {|socketId|}))"
  using fcard_Suc_fminus1[of socketId live] by linarith

lemma count_users_disconnect:
  assumes "socketId |\<in>| live" "onlineUsersCount s (uid u) = countEntryOf live"
  shows "onlineUsersCount (handleDisconnect_count u s) (uid u) =
         countEntryOf (live |-| {|socketId|})"
proof -
  let ?live' = "live |-| {|socketId|}"
  have ne: "live \<noteq> {||}" using assms(1) by auto
  have g: "getOrZero (onlineUsersCount s) (uid u) = int (fcard live)"
    using assms(2) ne by (simp add: getOrZero_def countEntryOf_def)
  have m: "max 0 (int (fcard live) - 1) = int (fcard ?live')"
    unfolding fcard_remove_member[OF assms(1)] by (simp del: fcard_fminus_finsert)
  have z: "int (fcard ?live') = 0 \<longleftrightarrow> ?live' = {||}" by simp
  show ?thesis
    unfolding handleDisconnect_count_def Let_def
    by (simp add: g m z fcard_remove_member[OF assms(1)] countEntryOf_def
        del: fcard_fminus_finsert of_nat_eq_0_iff)
qed

lemma count_dosen_disconnect:
  assumes "urole u = Dosen" "socketId |\<in>| live" "onlineDosenCount s (uid u) = countEntryOf live"
  shows "onlineDosenCount (handleDisconnect_count u s) (uid u) =
         countEntryOf (live |-| {|socketId|})"
proof -
  let ?live' = "live |-| {|socketId|}"
  have ne: "live \<noteq> {||}" using assms(2) by auto
  have g: "getOrZero (onlineDosenCount s) (uid u) = int (fcard live)"
    using assms(3) ne by (simp add: getOrZero_def countEntryOf_def)
  have m: "max 0 (int (fcard live) - 1) = int (fcard ?live')"
    unfolding fcard_remove_member[OF assms(2)] by (simp del: fcard_fminus_finsert)
  have z: "int (fcard ?live') = 0 \<longleftrightarrow> ?live' = {||}" by simp
  show ?thesis
    unfolding handleDisconnect_count_def Let_def
    by (simp add: assms(1) g m z countEntryOf_def del: fcard_fminus_finsert of_nat_eq_0_iff)
qed

lemma run_count_users:
  "urole u \<noteq> Admin \<Longrightarrow> interleaving live es \<Longrightarrow>
   onlineUsersCount s (uid u) = countEntryOf live \<Longrightarrow>
   onlineUsersCount (run_count u s es) (uid u) = countEntryOf (liveAfter live es)"
proof (induction es arbitrary: s live)
  case Nil
  then show ?case by (simp add: run_count_def)
next
  case (Cons ev es)
  show ?case
  proof (cases ev)
    case (Connect socketId)
    with Cons.prems have fresh: "socketId |\<notin>| live" and rest: "interleaving (finsert socketId live) es"
      by simp_all
    have "onlineUsersCount (run_count u (onConnection_count u s) es) (uid u) =
          countEntryOf (liveAfter (finsert socketId live) es)"
      using Cons.prems(1,3) fresh rest by (intro Cons.IH count_users_connect)
    with Connect show ?thesis by (simp add: run_count_def)
  next
    case (Disconnect socketId)
    with Cons.prems have mem: "socketId |\<in>| live" and rest: "interleaving (live |-| {|socketId|}) es"
      by simp_all
    have "onlineUsersCount (run_count u (handleDisconnect_count u s) es) (uid u) =
          countEntryOf (liveAfter (live |-| {|socketId|}) es)"
      using Cons.prems(1,3) mem rest by (intro Cons.IH count_users_disconnect)
    with Disconnect show ?thesis by (simp add: run_count_def)
  qed
qed

lemma run_count_dosen:
  "urole u = Dosen \<Longrightarrow> interleaving live es \<Longrightarrow>
   onlineDosenCount s (uid u) = countEntryOf live \<Longrightarrow>
   onlineDosenCount (run_count u s es) (uid u) = countEntryOf (liveAfter live es)"
proof (induction es arbitrary: s live)
  case Nil
  then show ?case by (simp add: run_count_def)
next
  case (Cons ev es)
  show ?case
  proof (cases ev)
    case (Connect socketId)
    with Cons.prems have fresh: "socketId |\<notin>| live" and rest: "interleaving (finsert socketId live) es"
      by simp_all
    have "onlineDosenCount (run_count u (onConnection_count u s) es) (uid u) =
          countEntryOf (liveAfter (finsert socketId live) es)"
      using Cons.prems(1,3) fresh rest by (intro Cons.IH count_dosen_connect)
    with Connect show ?thesis by (simp add: run_count_def)
  next
    case (Disconnect socketId)
    with Cons.prems have mem: "socketId |\<in>| live" and rest: "interleaving (live |-| {|socketId|}) es"
      by simp_all
    have "onlineDosenCount (run_count u (handleDisconnect_count u s) es) (uid u) =
          countEntryOf (liveAfter (live |-| {|socketId|}) es)"
      using Cons.prems(1,3) mem rest by (intro Cons.IH count_dosen_disconnect)
    with Disconnect show ?thesis by (simp add: run_count_def)
  qed
qed

text \<open>On every trace, well formed or not, a stored count is positive.\<close>

lemma positive_getOrZero: "positive m \<Longrightarrow> 0 \<le> getOrZero m k"
  by (cases "m k") (auto simp: positive_def getOrZero_def intro: less_imp_le)

lemma positive_upd: "positive m \<Longrightarrow> 0 < c \<Longrightarrow> positive (m(k \<mapsto> c))"
  by (simp add: positive_def)

lemma positive_del: "positive m \<Longrightarrow> positive (m(k := None))"
  by (simp add: positive_def)

lemma positive_step:
  assumes "positive (onlineDosenCount s) \<and> positive (onlineUsersCount s)"
  shows "positive (onlineDosenCount (step_count u s ev)) \<and>
         positive (onlineUsersCount (step_count u s ev))"
  using assms positive_getOrZero[of "onlineDosenCount s" "uid u"]
    positive_getOrZero[of "onlineUsersCount s" "uid u"]
  by (cases ev)
     (auto simp: onConnection_count_def handleDosenConnection_count_def
        handleMahasiswaConnection_count_def handleDisconnect_count_def Let_def max_def
        intro!: positive_upd positive_del split: if_splits)

lemma positive_run:
  "positive (onlineDosenCount s) \<and> positive (onlineUsersCount s) \<Longrightarrow>
   positive (onlineDosenCount (run_count u s es)) \<and>
   positive (onlineUsersCount (run_count u s es))"
  unfolding run_count_def
proof (induction es arbitrary: s)
  case Nil
  then show ?case by simp
next
  case (Cons ev es)
  from Cons.prems have "positive (onlineDosenCount (step_count u s ev)) \<and>
      positive (onlineUsersCount (step_count u s ev))"
    by (rule positive_step)
  then show ?case using Cons.IH by simp
qed


lemma live_iff:
  assumes "interleaving {||} es"
  shows "liveAfter {||} es \<noteq> {||} \<longleftrightarrow> disconnects es < connects es"
proof -
  have "fcard (liveAfter {||} es) + disconnects es = connects es"
    using interleaving_count[OF assms] by simp
  moreover have "liveAfter {||} es \<noteq> {||} \<longleftrightarrow> 0 < fcard (liveAfter {||} es)"
    by (simp add: zero_less_iff_neq_zero)
  ultimately show ?thesis by linarith
qed

lemma count_online_entry:
  "(case countEntryOf live of None \<Rightarrow> False | Some c \<Rightarrow> 0 < c) \<longleftrightarrow> live \<noteq> {||}"
  by (simp add: countEntryOf_def zero_less_iff_neq_zero)

text \<open>
  C7. Along every interleaving of connects and disconnects of the sockets of one identity
  (a socket id connects while it is not connected, and disconnects after it has connected),
  starting from a registry without an entry for the identity: a lecturer is online for
  \<open>isDosenOnline\<close>, and a lecturer or student for \<open>isUserOnline\<close>, exactly when the
  connects outnumber the disconnects; the number of registered sockets is their difference.
  The same holds for the counting registry, whose counts are never negative.
\<close>

theorem online_iff_connects_exceed_disconnects:
  assumes "interleaving {||} es"
    and "onlineDosenMap s (uid u) = None" and "onlineUsersMap s (uid u) = None"
    and "onlineDosenCount c = Map.empty" and "onlineUsersCount c = Map.empty"
  shows "(urole u = Dosen \<longrightarrow>
           (isDosenOnline nts (run u s es) (JStr (uid u)) \<longleftrightarrow> disconnects es < connects es)) \<and>
         (urole u \<noteq> Admin \<longrightarrow>
           (isUserOnline nts (run u s es) (JStr (uid u)) \<longleftrightarrow> disconnects es < connects es) \<and>
           fcard (getOrNewSet (onlineUsersMap (run u s es)) (uid u)) + disconnects es =
             connects es) \<and>
         (urole u = Dosen \<longrightarrow>
           (isDosenOnline_count (run_count u c es) (uid u) \<longleftrightarrow> disconnects es < connects es)) \<and>
         (urole u \<noteq> Admin \<longrightarrow>
           (isUserOnline_count (run_count u c es) (uid u) \<longleftrightarrow> disconnects es < connects es)) \<and>
         0 \<le> getOrZero (onlineDosenCount (run_count u c es)) (uid u) \<and>
         0 \<le> getOrZero (onlineUsersCount (run_count u c es)) (uid u)"
proof -
  let ?live = "liveAfter {||} es"
  have live: "?live \<noteq> {||} \<longleftrightarrow> disconnects es < connects es"
    using assms(1) by (rule live_iff)
  have size: "fcard ?live + disconnects es = connects es"
    using interleaving_count[OF assms(1)] by simp
  have d: "urole u = Dosen \<Longrightarrow> onlineDosenMap (run u s es) (uid u) = entryOf ?live"
    using assms(2) by (intro run_dosen) (simp_all add: entryOf_def)
  have g: "urole u \<noteq> Admin \<Longrightarrow> onlineUsersMap (run u s es) (uid u) = entryOf ?live"
    using assms(3) by (intro run_users) (simp_all add: entryOf_def)
  have dc: "urole u = Dosen \<Longrightarrow> onlineDosenCount (run_count u c es) (uid u) = countEntryOf ?live"
    using assms(1,4) by (intro run_count_dosen) (simp_all add: countEntryOf_def)
  have gc: "urole u \<noteq> Admin \<Longrightarrow> onlineUsersCount (run_count u c es) (uid u) = countEntryOf ?live"
    using assms(1,5) by (intro run_count_users) (simp_all add: countEntryOf_def)
  have pos: "positive (onlineDosenCount (run_count u c es)) \<and>
             positive (onlineUsersCount (run_count u c es))"
    using assms(4,5) by (intro positive_run) (simp add: positive_def)
  have 1: "urole u = Dosen \<longrightarrow>
           (isDosenOnline nts (run u s es) (JStr (uid u)) \<longleftrightarrow> disconnects es < connects es)"
    using d live by (simp add: isDosenOnline_def online_entry)
  have 2: "urole u \<noteq> Admin \<longrightarrow>
           (isUserOnline nts (run u s es) (JStr (uid u)) \<longleftrightarrow> disconnects es < connects es) \<and>
           fcard (getOrNewSet (onlineUsersMap (run u s es)) (uid u)) + disconnects es =
             connects es"
    using g live size by (auto simp: isUserOnline_def online_entry getOrNewSet_def entryOf_def)
  have 3: "urole u = Dosen \<longrightarrow>
           (isDosenOnline_count (run_count u c es) (uid u) \<longleftrightarrow> disconnects es < connects es)"
    using dc live by (simp add: isDosenOnline_count_def count_online_entry)
  have 4: "urole u \<noteq> Admin \<longrightarrow>
           (isUserOnline_count (run_count u c es) (uid u) \<longleftrightarrow> disconnects es < connects es)"
    using gc live by (simp add: isUserOnline_count_def count_online_entry)
  from 1 2 3 4 pos show ?thesis by (simp add: positive_getOrZero)
qed

theorem online_iff_connects_exceed_disconnects_witness:
  "isDosenOnline wholeNumberText (run dosen1 state0 [Connect ''a'', Connect ''b'', Disconnect ''a''])
     (JStr ''dosen-1'') \<and>
   \<not> isUserOnline wholeNumberText
       (run dosen1 state0 [Connect ''a'', Connect ''b'', Disconnect ''a'', Disconnect ''b''])
       (JStr ''dosen-1'') \<and>
   isUserOnline_count (run_count mahasiswa1 counts0 [Connect ''a'']) ''mhs-1''"
proof -
  have i1: "interleaving {||} [Connect ''a'', Connect ''b'', Disconnect ''a'']" by simp
  have i2: "interleaving {||} [Connect ''a'', Connect ''b'', Disconnect ''a'', Disconnect ''b'']"
    by simp
  have i3: "interleaving {||} [Connect ''a'']" by simp
  have s: "onlineDosenMap state0 (uid dosen1) = None" "onlineUsersMap state0 (uid dosen1) = None"
    "onlineDosenMap state0 (uid mahasiswa1) = None" "onlineUsersMap state0 (uid mahasiswa1) = None"
    by (simp_all add: state0_def)
  have c: "onlineDosenCount counts0 = Map.empty" "onlineUsersCount counts0 = Map.empty"
    by (simp_all add: counts0_def)
  have r: "urole dosen1 = Dosen" "urole mahasiswa1 = Mahasiswa" "uid dosen1 = ''dosen-1''"
    "uid mahasiswa1 = ''mhs-1''"
    by (simp_all add: dosen1_def mahasiswa1_def)
  from online_iff_connects_exceed_disconnects[OF i1 s(1,2) c, of wholeNumberText]
       online_iff_connects_exceed_disconnects[OF i2 s(1,2) c, of wholeNumberText]
       online_iff_connects_exceed_disconnects[OF i3 s(3,4) c, of wholeNumberText]
  show ?thesis
    by (simp add: r connects_def disconnects_def)
qed

text \<open>The connection callback registers no presence for an administrator.\<close>

lemma admin_never_online:
  "urole u = Admin \<Longrightarrow> onlineUsersMap s (uid u) = None \<Longrightarrow>
   \<not> isUserOnline nts (run u s es) (JStr (uid u))"
proof (induction es arbitrary: s)
  case Nil
  then show ?case by (simp add: run_def isUserOnline_def)
next
  case (Cons ev es)
  have "step u s ev = s"
    using Cons.prems
    by (cases ev) (simp_all add: onConnection_def handleDisconnect_def Let_def)
  then show ?case using Cons.IH[OF Cons.prems] by (simp add: run_def)
qed

lemma isOnline_cong:
  "onlineUsersMap a = onlineUsersMap b \<Longrightarrow> isUserOnline nts a = isUserOnline nts b"
  "onlineDosenMap a = onlineDosenMap b \<Longrightarrow> isDosenOnline nts a = isDosenOnline nts b"
  by (auto simp: isUserOnline_def isDosenOnline_def fun_eq_iff)

lemma connect_maps:
  "onlineDosenMap (handleDosenConnection socketId u s) =
     (onlineDosenMap s)(uid u \<mapsto> finsert socketId (getOrNewSet (onlineDosenMap s) (uid u)))"
  "onlineUsersMap (handleDosenConnection socketId u s) =
     (onlineUsersMap s)(uid u \<mapsto> finsert socketId (getOrNewSet (onlineUsersMap s) (uid u)))"
  "onlineDosenMap (handleMahasiswaConnection socketId u s) = onlineDosenMap s"
  "onlineUsersMap (handleMahasiswaConnection socketId u s) =
     (onlineUsersMap s)(uid u \<mapsto> finsert socketId (getOrNewSet (onlineUsersMap s) (uid u)))"
  by (simp_all add: handleDosenConnection_def handleMahasiswaConnection_def socketJoin_def
      emit_def Let_def)

lemma disconnect_maps:
  "onlineUsersMap (handleDisconnect socketId u s) =
     (case onlineUsersMap s (uid u) of
        None \<Rightarrow> onlineUsersMap s
      | Some sockets \<Rightarrow>
          if sockets |-| {|socketId|} = {||} then (onlineUsersMap s)(uid u := None)
          else (onlineUsersMap s)(uid u \<mapsto> sockets |-| {|socketId|}))"
  "onlineDosenMap (handleDisconnect socketId u s) =
     (if urole u = Dosen
      then (case onlineDosenMap s (uid u) of
              None \<Rightarrow> onlineDosenMap s
            | Some sockets \<Rightarrow>
                if sockets |-| {|socketId|} = {||} then (onlineDosenMap s)(uid u := None)
                else (onlineDosenMap s)(uid u \<mapsto> sockets |-| {|socketId|}))
      else onlineDosenMap s)"
  by (simp_all add: handleDisconnect_def emit_def Let_def split: option.splits)

lemma connect_twice:
  "onlineDosenMap (handleDosenConnection socketId u (handleDosenConnection socketId u s)) =
     onlineDosenMap (handleDosenConnection socketId u s)"
  "onlineUsersMap (handleDosenConnection socketId u (handleDosenConnection socketId u s)) =
     onlineUsersMap (handleDosenConnection socketId u s)"
  "onlineDosenMap (handleMahasiswaConnection socketId u (handleMahasiswaConnection socketId u s)) =
     onlineDosenMap (handleMahasiswaConnection socketId u s)"
  "onlineUsersMap (handleMahasiswaConnection socketId u (handleMahasiswaConnection socketId u s)) =
     onlineUsersMap (handleMahasiswaConnection socketId u s)"
  by (simp_all add: connect_maps getOrNewSet_def)

lemma disconnect_twice:
  "onlineDosenMap (handleDisconnect socketId u (handleDisconnect socketId u s)) =
     onlineDosenMap (handleDisconnect socketId u s)"
  "onlineUsersMap (handleDisconnect socketId u (handleDisconnect socketId u s)) =
     onlineUsersMap (handleDisconnect socketId u s)"
  by (simp_all add: disconnect_maps split: option.splits)

lemma disconnect_absent:
  assumes "\<forall>sockets. onlineUsersMap s (uid u) = Some sockets \<longrightarrow>
             socketId |\<notin>| sockets \<and> sockets \<noteq> {||}"
    and "\<forall>sockets. onlineDosenMap s (uid u) = Some sockets \<longrightarrow>
             socketId |\<notin>| sockets \<and> sockets \<noteq> {||}"
  shows "handleDisconnect socketId u s = s"
proof -
  have minus: "\<And>sockets. socketId |\<notin>| sockets \<Longrightarrow> sockets |-| {|socketId|} = sockets"
    by auto
  show ?thesis
    using assms
    by (cases "onlineUsersMap s (uid u)"; cases "onlineDosenMap s (uid u)")
       (simp_all add: handleDisconnect_def emit_def Let_def minus map_upd_triv)
qed

lemma count_disconnect_absent:
  assumes "onlineDosenCount s (uid u) = None" "onlineUsersCount s (uid u) = None"
  shows "onlineDosenCount (handleDisconnect_count u s) = onlineDosenCount s"
    and "onlineUsersCount (handleDisconnect_count u s) = onlineUsersCount s"
  using assms
  by (simp_all add: handleDisconnect_count_def getOrZero_def Let_def fun_upd_idem)

text \<open>
  C8. Connecting a socket id of an identity a second time, or disconnecting it a second
  time, leaves both registry maps, and with them every answer of \<open>isDosenOnline\<close> and
  \<open>isUserOnline\<close>, as they were after the first time; disconnecting a socket id that is
  not registered changes nothing. In the counting registry, too, a disconnect of an
  identity without an entry leaves both maps as they are.
\<close>

theorem presence_idempotent:
  "onlineDosenMap (handleDosenConnection socketId u (handleDosenConnection socketId u s)) =
     onlineDosenMap (handleDosenConnection socketId u s) \<and>
   onlineUsersMap (handleDosenConnection socketId u (handleDosenConnection socketId u s)) =
     onlineUsersMap (handleDosenConnection socketId u s) \<and>
   isDosenOnline nts (handleDosenConnection socketId u (handleDosenConnection socketId u s)) =
     isDosenOnline nts (handleDosenConnection socketId u s) \<and>
   isUserOnline nts (handleDosenConnection socketId u (handleDosenConnection socketId u s)) =
     isUserOnline nts (handleDosenConnection socketId u s) \<and>
   onlineDosenMap (handleMahasiswaConnection socketId u (handleMahasiswaConnection socketId u s)) =
     onlineDosenMap (handleMahasiswaConnection socketId u s) \<and>
   onlineUsersMap (handleMahasiswaConnection socketId u (handleMahasiswaConnection socketId u s)) =
     onlineUsersMap (handleMahasiswaConnection socketId u s) \<and>
   isUserOnline nts (handleMahasiswaConnection socketId u (handleMahasiswaConnection socketId u s)) =
     isUserOnline nts (handleMahasiswaConnection socketId u s) \<and>
   onlineDosenMap (handleDisconnect socketId u (handleDisconnect socketId u s)) =
     onlineDosenMap (handleDisconnect socketId u s) \<and>
   onlineUsersMap (handleDisconnect socketId u (handleDisconnect socketId u s)) =
     onlineUsersMap (handleDisconnect socketId u s) \<and>
   isDosenOnline nts (handleDisconnect socketId u (handleDisconnect socketId u s)) =
     isDosenOnline nts (handleDisconnect socketId u s) \<and>
   isUserOnline nts (handleDisconnect socketId u (handleDisconnect socketId u s)) =
     isUserOnline nts (handleDisconnect socketId u s) \<and>
   ((\<forall>sockets. onlineUsersMap s (uid u) = Some sockets \<longrightarrow>
        socketId |\<notin>| sockets \<and> sockets \<noteq> {||}) \<and>
    (\<forall>sockets. onlineDosenMap s (uid u) = Some sockets \<longrightarrow>
        socketId |\<notin>| sockets \<and> sockets \<noteq> {||}) \<longrightarrow>
    handleDisconnect socketId u s = s) \<and>
   (onlineDosenCount c (uid u) = None \<and> onlineUsersCount c (uid u) = None \<longrightarrow>
    onlineDosenCount (handleDisconnect_count u c) = onlineDosenCount c \<and>
    onlineUsersCount (handleDisconnect_count u c) = onlineUsersCount c)"
proof -
  have "isDosenOnline nts (handleDosenConnection socketId u (handleDosenConnection socketId u s)) =
     isDosenOnline nts (handleDosenConnection socketId u s)"
    by (rule isOnline_cong) (rule connect_twice)
  moreover have "isUserOnline nts (handleDosenConnection socketId u (handleDosenConnection socketId u s)) =
     isUserOnline nts (handleDosenConnection socketId u s)"
    by (rule isOnline_cong) (rule connect_twice)
  moreover have "isUserOnline nts (handleMahasiswaConnection socketId u (handleMahasiswaConnection socketId u s)) =
     isUserOnline nts (handleMahasiswaConnection socketId u s)"
    by (rule isOnline_cong) (rule connect_twice)
  moreover have "isDosenOnline nts (handleDisconnect socketId u (handleDisconnect socketId u s)) =
     isDosenOnline nts (handleDisconnect socketId u s)"
    by (rule isOnline_cong) (rule disconnect_twice)
  moreover have "isUserOnline nts (handleDisconnect socketId u (handleDisconnect socketId u s)) =
     isUserOnline nts (handleDisconnect socketId u s)"
    by (rule isOnline_cong) (rule disconnect_twice)
  ultimately show ?thesis
    using disconnect_absent[of s u socketId] count_disconnect_absent[of c u]
    by (simp only: connect_twice disconnect_twice) blast
qed

theorem presence_idempotent_witness:
  "handleDisconnect ''b'' dosen1 (handleDosenConnection ''a'' dosen1 state0) =
     handleDosenConnection ''a'' dosen1 state0 \<and>
   onlineDosenMap (handleDosenConnection ''a'' dosen1 (handleDosenConnection ''a'' dosen1 state0))
     ''dosen-1'' = Some {|''a''|} \<and>
   onlineUsersMap (handleDisconnect ''a'' dosen1
       (handleDisconnect ''a'' dosen1 (handleDosenConnection ''a'' dosen1 state0))) ''dosen-1'' = None \<and>
   onlineUsersCount (handleDisconnect_count dosen1 counts0) ''dosen-1'' = None"
proof -
  let ?s = "handleDosenConnection ''a'' dosen1 state0"
  have m: "onlineDosenMap ?s (uid dosen1) = Some {|''a''|}"
    "onlineUsersMap ?s (uid dosen1) = Some {|''a''|}"
    by (simp_all add: handleDosenConnection_def socketJoin_def emit_def getOrNewSet_def
        Let_def dosen1_def state0_def)
  have once: "onlineUsersMap (handleDisconnect ''a'' dosen1 ?s) (uid dosen1) = None"
    using m by (simp add: handleDisconnect_def emit_def Let_def dosen1_def)
  have u: "uid dosen1 = ''dosen-1''" by (simp add: dosen1_def)
  from presence_idempotent[of "''b''" dosen1 ?s wholeNumberText counts0] m
  have absent: "handleDisconnect ''b'' dosen1 ?s = ?s" by simp
  from presence_idempotent[of "''a''" dosen1 state0 wholeNumberText counts0] m
  have twice: "onlineDosenMap (handleDosenConnection ''a'' dosen1 ?s) (uid dosen1) = Some {|''a''|}"
    by simp
  from presence_idempotent[of "''a''" dosen1 ?s wholeNumberText counts0] once
  have gone: "onlineUsersMap (handleDisconnect ''a'' dosen1 (handleDisconnect ''a'' dosen1 ?s))
       (uid dosen1) = None"
    by simp
  have c: "onlineDosenCount counts0 (uid dosen1) = None" "onlineUsersCount counts0 (uid dosen1) = None"
    by (simp_all add: counts0_def)
  from presence_idempotent[of "''a''" dosen1 state0 wholeNumberText counts0] c
  have none: "onlineUsersCount (handleDisconnect_count dosen1 counts0) = onlineUsersCount counts0"
    by simp
  from absent twice gone none show ?thesis by (simp add: u counts0_def)
qed

text \<open>Events of another identity leave the registry entries of this one alone.\<close>

lemma other_identity_frame:
  assumes "uid v \<noteq> uid u"
  shows "onlineDosenMap (step v s ev) (uid u) = onlineDosenMap s (uid u)"
    and "onlineUsersMap (step v s ev) (uid u) = onlineUsersMap s (uid u)"
  using assms
  by (cases ev; simp add: onConnection_def connect_maps disconnect_maps split: option.splits)+

text \<open>
  The counting registry has no connection ids: calling its connect handler twice for one
  socket counts two.
\<close>

lemma counting_registry_counts_each_call:
  "onlineDosenCount (handleDosenConnection_count dosen1 counts0) ''dosen-1'' = Some 1"
  "onlineDosenCount
     (handleDosenConnection_count dosen1 (handleDosenConnection_count dosen1 counts0))
     ''dosen-1'' = Some 2"
  by (simp_all add: handleDosenConnection_count_def getOrZero_def Let_def dosen1_def counts0_def)

section \<open>Joining a room\<close>

















end
